theory Spec2Isabelle
  imports Main "HOL-Library.Char_ord" "HOL-Library.List_Lexorder"
begin

section \<open>Time values and the calendar\<close>

text \<open>
  A JavaScript \<^verbatim>\<open>Date\<close> holds a time value: an integral number of milliseconds since
  1970-01-01T00:00:00Z. The handlers in \<^verbatim>\<open>index.ts\<close> only ever call
  \<^verbatim>\<open>getTime\<close>, \<^verbatim>\<open>toISOString\<close> and \<^verbatim>\<open>toLocaleTimeString\<close> on it. The calendar functions below
  are the ones ECMAScript uses to define \<^verbatim>\<open>toISOString\<close> (Day, DaysInYear, DayFromYear,
  YearFromTime, InLeapYear, DayWithinYear, MonthFromTime, DateFromTime, HourFromTime,
  MinFromTime, SecFromTime, msFromTime), over \<open>int\<close> with floor division.
\<close>

definition msPerDay :: int where "msPerDay = 86400000"
definition msPerHour :: int where "msPerHour = 3600000"
definition msPerMinute :: int where "msPerMinute = 60000"
definition msPerSecond :: int where "msPerSecond = 1000"

definition Day :: "int \<Rightarrow> int" where
  "Day t = t div msPerDay"

definition DaysInYear :: "int \<Rightarrow> int" where
  "DaysInYear y =
     (if y mod 4 \<noteq> 0 then 365
      else if y mod 100 \<noteq> 0 then 366
      else if y mod 400 \<noteq> 0 then 365
      else 366)"

definition DayFromYear :: "int \<Rightarrow> int" where
  "DayFromYear y =
     365 * (y - 1970) + (y - 1969) div 4 - (y - 1901) div 100 + (y - 1601) div 400"

text \<open>
  ECMAScript defines YearFromTime as the largest year whose first day is not after the given
  day. The search below starts from a year that is never too late (\<open>yearLower\<close>) and walks
  forward; \<open>YearFromDay_bracket\<close> and \<open>YearFromDay_largest\<close> show that it computes exactly
  that year. Its termination needs that every year has at least 365 days.
\<close>

lemma div_succ:
  fixes a n :: int
  assumes "0 < n"
  shows "(a + 1) div n = a div n + (if (a + 1) mod n = 0 then 1 else 0)"
proof (cases "a mod n + 1 = n")
  case True
  have "a + 1 = n * (a div n + 1) + 0"
    using True by (simp add: algebra_simps) (metis add.commute add.left_commute mult_div_mod_eq)
  then have "(a + 1) div n = a div n + 1" "(a + 1) mod n = 0"
    using assms int_div_pos_eq int_mod_pos_eq by blast+
  then show ?thesis by simp
next
  case False
  have b: "0 \<le> a mod n" "a mod n < n" using assms by simp_all
  have "a + 1 = n * (a div n) + (a mod n + 1)" by simp
  moreover have "0 \<le> a mod n + 1" "a mod n + 1 < n" using b False by linarith+
  ultimately have "(a + 1) div n = a div n" "(a + 1) mod n = a mod n + 1"
    using int_div_pos_eq int_mod_pos_eq by blast+
  then show ?thesis using b by simp
qed

lemma mod_shift:
  fixes y k n :: int
  assumes "n dvd k"
  shows "(y - k) mod n = 0 \<longleftrightarrow> y mod n = 0"
  using assms by (simp add: mod_eq_0_iff_dvd dvd_diff_left_iff)

lemma mod_coarser:
  fixes y m n :: int
  assumes "n dvd m" "y mod m = 0"
  shows "y mod n = 0"
  using assms by (metis dvd_trans mod_eq_0_iff_dvd)

lemma DayFromYear_step: "DayFromYear (y + 1) = DayFromYear y + DaysInYear y"
proof -
  have m4: "(y - 1968) mod 4 = 0 \<longleftrightarrow> y mod 4 = 0" by (rule mod_shift) simp
  have m100: "(y - 1900) mod 100 = 0 \<longleftrightarrow> y mod 100 = 0" by (rule mod_shift) simp
  have m400: "(y - 1600) mod 400 = 0 \<longleftrightarrow> y mod 400 = 0" by (rule mod_shift) simp
  have i1: "y mod 100 = 0 \<Longrightarrow> y mod 4 = 0" by (rule mod_coarser [of 4 100]) simp_all
  have i2: "y mod 400 = 0 \<Longrightarrow> y mod 100 = 0" by (rule mod_coarser [of 100 400]) simp_all
  have a: "(y + 1 - 1969) div 4 = (y - 1969) div 4 + (if y mod 4 = 0 then 1 else 0)"
    using div_succ [of 4 "y - 1969"] m4 by (simp add: algebra_simps)
  have b: "(y + 1 - 1901) div 100 = (y - 1901) div 100 + (if y mod 100 = 0 then 1 else 0)"
    using div_succ [of 100 "y - 1901"] m100 by (simp add: algebra_simps)
  have c: "(y + 1 - 1601) div 400 = (y - 1601) div 400 + (if y mod 400 = 0 then 1 else 0)"
    using div_succ [of 400 "y - 1601"] m400 by (simp add: algebra_simps)
  show ?thesis
    unfolding DayFromYear_def DaysInYear_def a b c using i1 i2 by auto
qed

lemma DaysInYear_bounds: "365 \<le> DaysInYear y" "DaysInYear y \<le> 366"
  by (simp_all add: DaysInYear_def)

lemma DayFromYear_less_succ: "DayFromYear y < DayFromYear (y + 1)"
  using DaysInYear_bounds(1) [of y] by (simp add: DayFromYear_step)

function yearUp :: "int \<Rightarrow> int \<Rightarrow> int" where
  "yearUp d y = (if DayFromYear (y + 1) \<le> d then yearUp d (y + 1) else y)"
  by pat_completeness auto
termination
proof (relation "measure (\<lambda>(d, y). nat (d - DayFromYear (y + 1) + 1))")
  show "wf (measure (\<lambda>(d, y). nat (d - DayFromYear (y + 1) + 1)))" by simp
next
  fix d y :: int
  assume "DayFromYear (y + 1) \<le> d"
  then show "((d, y + 1), (d, y)) \<in> measure (\<lambda>(d, y). nat (d - DayFromYear (y + 1) + 1))"
    using DayFromYear_less_succ [of "y + 1"] by simp
qed

declare yearUp.simps [simp del]

definition yearLower :: "int \<Rightarrow> int" where
  "yearLower d = 1970 + (if 0 \<le> d then d div 366 else d div 365)"

definition YearFromDay :: "int \<Rightarrow> int" where
  "YearFromDay d = yearUp d (yearLower d)"

definition YearFromTime :: "int \<Rightarrow> int" where
  "YearFromTime t = YearFromDay (Day t)"

definition DayWithinYear :: "int \<Rightarrow> int" where
  "DayWithinYear t = Day t - DayFromYear (YearFromTime t)"

definition InLeapYear :: "int \<Rightarrow> int" where
  "InLeapYear t = (if DaysInYear (YearFromTime t) = 366 then 1 else 0)"

definition monthOf :: "int \<Rightarrow> int \<Rightarrow> int" where
  "monthOf dwy leap =
     (if dwy < 31 then 0
      else if dwy < 59 + leap then 1
      else if dwy < 90 + leap then 2
      else if dwy < 120 + leap then 3
      else if dwy < 151 + leap then 4
      else if dwy < 181 + leap then 5
      else if dwy < 212 + leap then 6
      else if dwy < 243 + leap then 7
      else if dwy < 273 + leap then 8
      else if dwy < 304 + leap then 9
      else if dwy < 334 + leap then 10
      else 11)"

definition dateOf :: "int \<Rightarrow> int \<Rightarrow> int" where
  "dateOf dwy leap =
     (let m = monthOf dwy leap in
      if m = 0 then dwy + 1
      else if m = 1 then dwy - 30
      else if m = 2 then dwy - 58 - leap
      else if m = 3 then dwy - 89 - leap
      else if m = 4 then dwy - 119 - leap
      else if m = 5 then dwy - 150 - leap
      else if m = 6 then dwy - 180 - leap
      else if m = 7 then dwy - 211 - leap
      else if m = 8 then dwy - 242 - leap
      else if m = 9 then dwy - 272 - leap
      else if m = 10 then dwy - 303 - leap
      else dwy - 333 - leap)"

definition MonthFromTime :: "int \<Rightarrow> int" where
  "MonthFromTime t = monthOf (DayWithinYear t) (InLeapYear t)"

definition DateFromTime :: "int \<Rightarrow> int" where
  "DateFromTime t = dateOf (DayWithinYear t) (InLeapYear t)"

definition HourFromTime :: "int \<Rightarrow> int" where
  "HourFromTime t = (t div msPerHour) mod 24"

definition MinFromTime :: "int \<Rightarrow> int" where
  "MinFromTime t = (t div msPerMinute) mod 60"

definition SecFromTime :: "int \<Rightarrow> int" where
  "SecFromTime t = (t div msPerSecond) mod 60"

definition msFromTime :: "int \<Rightarrow> int" where
  "msFromTime t = t mod msPerSecond"

subsection \<open>The ISO-8601 string of a time value\<close>

text \<open>
  \<^verbatim>\<open>toISOString\<close> prints \<^verbatim>\<open>YYYY-MM-DDTHH:mm:ss.sssZ\<close>; a year outside 0..9999 is printed
  with a sign and six digits. \<open>pad w n\<close> is the decimal numeral of \<open>n\<close> on \<open>w\<close> digits.
\<close>

definition digit :: "nat \<Rightarrow> char" where
  "digit n = char_of (48 + n)"

fun pad :: "nat \<Rightarrow> int \<Rightarrow> string" where
  "pad 0 n = []"
| "pad (Suc w) n = pad w (n div 10) @ [digit (nat (n mod 10))]"

definition isoYear :: "int \<Rightarrow> string" where
  "isoYear y =
     (if 0 \<le> y \<and> y \<le> 9999 then pad 4 y
      else (if y < 0 then ''-'' else ''+'') @ pad 6 \<bar>y\<bar>)"

definition isoString :: "int \<Rightarrow> string" where
  "isoString t =
     isoYear (YearFromTime t) @ ''-'' @ pad 2 (MonthFromTime t + 1) @ ''-'' @
     pad 2 (DateFromTime t) @ ''T'' @ pad 2 (HourFromTime t) @ '':'' @
     pad 2 (MinFromTime t) @ '':'' @ pad 2 (SecFromTime t) @ ''.'' @
     pad 3 (msFromTime t) @ ''Z''"

section \<open>Dates, strings and JSON values as the handlers use them\<close>

text \<open>
  A \<^verbatim>\<open>Date\<close> object is its time value, or \<open>None\<close> for the Invalid Date (time value NaN).
  \<open>newDate v\<close> is \<^verbatim>\<open>new Date(v)\<close>: a value beyond 8.64e15 ms in magnitude gives the Invalid
  Date. \<open>dateMinus d ms\<close> is \<^verbatim>\<open>new Date(d.getTime() - ms)\<close>. \<^verbatim>\<open>toISOString\<close> throws a RangeError
  on the Invalid Date. All time values here are below \<open>2^53\<close> in magnitude, so the
  arithmetic of JavaScript numbers on them is exact integer arithmetic. The message of an
  error raised by the engine is engine-defined; the texts written below stand for it.
\<close>

type_synonym Date = "int option"

definition maxTime :: int where "maxTime = 8640000000000000"

definition newDate :: "int \<Rightarrow> Date" where
  "newDate v = (if \<bar>v\<bar> \<le> maxTime then Some v else None)"

definition dateMinus :: "Date \<Rightarrow> int \<Rightarrow> Date" where
  "dateMinus d ms = (case d of None \<Rightarrow> None | Some t \<Rightarrow> newDate (t - ms))"

datatype error = RangeError string | TypeError string | StoreError string

fun message :: "error \<Rightarrow> string" where
  "message (RangeError m) = m"
| "message (TypeError m) = m"
| "message (StoreError m) = m"

definition toISOString :: "Date \<Rightarrow> error + string" where
  "toISOString d =
     (case d of None \<Rightarrow> Inl (RangeError ''Invalid time value'') | Some t \<Rightarrow> Inr (isoString t))"

text \<open>\<^verbatim>\<open>String.prototype.substring(start, end)\<close>: both indices are clamped to the string and
  swapped when out of order.\<close>

definition substring :: "string \<Rightarrow> int \<Rightarrow> int \<Rightarrow> string" where
  "substring s start end =
     (let len = int (length s);
          finalStart = min (max start 0) len;
          finalEnd = min (max end 0) len;
          from = min finalStart finalEnd;
          to = max finalStart finalEnd
      in take (nat (to - from)) (drop (nat from) s))"

text \<open>
  The specification names the key rule \<open>bucketKey\<close>: the first 16 characters of the ISO
  string with \<^verbatim>\<open>"0:00"\<close> appended. The source has no such function; it writes
  \<^verbatim>\<open>toISOString().substring(0, 16) + '0:00'\<close> in four places, and the handlers below keep
  that expression. \<open>bucketKey\<close> is the specification's wording, for comparison.
\<close>

definition bucketKey :: "int \<Rightarrow> string" where
  "bucketKey t = take 16 (isoString t) @ ''0:00''"

text \<open>
  A request body parsed by \<^verbatim>\<open>express.json()\<close>. A number is carried by its JavaScript
  string form, the only thing the handlers can observe of it; an object lists its own
  properties, each key once. \<open>templateString\<close> is the
  conversion a template literal applies to an interpolated value (\<open>None\<close> is
  \<^verbatim>\<open>undefined\<close>): an array joins its elements with commas, printing null as the empty
  string; a plain object prints as \<^verbatim>\<open>[object Object]\<close>, unless it has an own property
  \<^verbatim>\<open>toString\<close>, which after JSON parsing is never callable, so that the conversion throws a
  TypeError. \<open>destructure\<close> is \<^verbatim>\<open>const { event, data } = req.body\<close>.
\<close>

datatype json =
    JNull
  | JBool bool
  | JNumber string
  | JString string
  | JArray "json list"
  | JObject "(string \<times> json) list"

fun joinComma :: "(error + string) list \<Rightarrow> error + string" where
  "joinComma [] = Inr []"
| "joinComma [r] = r"
| "joinComma (r # rs) =
     (case r of
        Inl e \<Rightarrow> Inl e
      | Inr s \<Rightarrow> (case joinComma rs of Inl e \<Rightarrow> Inl e | Inr t \<Rightarrow> Inr (s @ '','' @ t)))"

fun jsonToString :: "json \<Rightarrow> error + string" where
  "jsonToString JNull = Inr ''null''"
| "jsonToString (JBool b) = Inr (if b then ''true'' else ''false'')"
| "jsonToString (JNumber s) = Inr s"
| "jsonToString (JString s) = Inr s"
| "jsonToString (JArray xs) =
     joinComma (map (\<lambda>x. if x = JNull then Inr [] else jsonToString x) xs)"
| "jsonToString (JObject kvs) =
     (if ''toString'' \<in> set (map fst kvs)
      then Inl (TypeError ''Cannot convert object to primitive value'')
      else Inr ''[object Object]'')"

definition templateString :: "json option \<Rightarrow> error + string" where
  "templateString v = (case v of None \<Rightarrow> Inr ''undefined'' | Some j \<Rightarrow> jsonToString j)"

fun getProp :: "json \<Rightarrow> string \<Rightarrow> json option" where
  "getProp (JObject kvs) k = map_of kvs k"
| "getProp _ k = None"

definition destructure :: "json option \<Rightarrow> error + (json option \<times> json option)" where
  "destructure b =
     (case b of
        None \<Rightarrow> Inl (TypeError ''Cannot destructure property of undefined'')
      | Some JNull \<Rightarrow> Inl (TypeError ''Cannot destructure property of null'')
      | Some j \<Rightarrow> Inr (getProp j ''event'', getProp j ''data''))"

text \<open>\<^verbatim>\<open>header || 'default'\<close> on a header that is a string or undefined: the default
  replaces undefined and the empty string.\<close>

definition orElse :: "string option \<Rightarrow> string \<Rightarrow> string" where
  "orElse v d = (case v of None \<Rightarrow> d | Some s \<Rightarrow> if s = [] then d else s)"

section \<open>Requests, documents and the store\<close>

text \<open>What the handlers read of an Express request.\<close>

record Request =
  headers_user_agent :: "string option"
  headers_referer :: "string option"
  ip :: "string option"
  body :: "json option"

text \<open>
  The documents of \<^verbatim>\<open>db.ts\<close>. \<open>PageLoad\<close> is the per-key counter; \<open>PageLoadDetail\<close> and
  \<open>AnalyticsEvent\<close> have the same fields. Field names carry a prefix where two interfaces
  share a name.
\<close>

record PageLoad =
  pl_eventType :: string
  pl_timeKey :: string
  pl_count :: int
  pl_lastUpdated :: Date

record PageLoadDetail =
  eventType :: string
  timeKey :: string
  timestamp :: Date
  userAgent :: "string option"
  ipAddress :: "string option"
  referrer :: "string option"
  eventData :: "json option"

type_synonym AnalyticsEvent = PageLoadDetail

text \<open>
  The arguments of the Mongoose calls: the filter \<^verbatim>\<open>{eventType, timeKey}\<close>, the update
  \<^verbatim>\<open>{$inc: {count}, $set: {lastUpdated}}\<close>, the options \<^verbatim>\<open>{upsert}\<close>, and the range query
  \<^verbatim>\<open>{eventType, timeKey: {$gte, $lte}}\<close> sorted by ascending \<^verbatim>\<open>timeKey\<close>.
\<close>

record Filter =
  f_eventType :: string
  f_timeKey :: string

record Update =
  inc_count :: int
  set_lastUpdated :: Date

record Options =
  upsert :: bool

record Query =
  q_eventType :: string
  q_gte :: string
  q_lte :: string

datatype store_call =
    FindOneAndUpdate Filter Update Options
  | CreatePageLoadDetail PageLoadDetail
  | CreateAnalyticsEvent AnalyticsEvent
  | FindSorted Query

text \<open>
  The store is outside the repository. The handlers are modelled against any store: four
  operations on a store state \<open>'st\<close>, each of which may reject with an error and returns
  the state it leaves behind. A \<open>World\<close> is the store state together with the list of
  store calls issued so far.
\<close>

record 'st Store =
  store_findOneAndUpdate :: "Filter \<Rightarrow> Update \<Rightarrow> Options \<Rightarrow> 'st \<Rightarrow> (error + unit) \<times> 'st"
  store_createDetail :: "PageLoadDetail \<Rightarrow> 'st \<Rightarrow> (error + unit) \<times> 'st"
  store_createEvent :: "AnalyticsEvent \<Rightarrow> 'st \<Rightarrow> (error + unit) \<times> 'st"
  store_find :: "Query \<Rightarrow> 'st \<Rightarrow> (error + PageLoad list) \<times> 'st"

record 'st World =
  st :: 'st
  calls :: "store_call list"

definition PageLoadModel_findOneAndUpdate ::
  "'st Store \<Rightarrow> Filter \<Rightarrow> Update \<Rightarrow> Options \<Rightarrow> 'st World \<Rightarrow> (error + unit) \<times> 'st World" where
  "PageLoadModel_findOneAndUpdate S f u opts w =
     (case store_findOneAndUpdate S f u opts (st w) of
        (r, s') \<Rightarrow> (r, \<lparr>st = s', calls = calls w @ [FindOneAndUpdate f u opts]\<rparr>))"

definition PageLoadDetailModel_create ::
  "'st Store \<Rightarrow> PageLoadDetail \<Rightarrow> 'st World \<Rightarrow> (error + unit) \<times> 'st World" where
  "PageLoadDetailModel_create S doc w =
     (case store_createDetail S doc (st w) of
        (r, s') \<Rightarrow> (r, \<lparr>st = s', calls = calls w @ [CreatePageLoadDetail doc]\<rparr>))"

definition AnalyticsEventModel_create ::
  "'st Store \<Rightarrow> AnalyticsEvent \<Rightarrow> 'st World \<Rightarrow> (error + unit) \<times> 'st World" where
  "AnalyticsEventModel_create S doc w =
     (case store_createEvent S doc (st w) of
        (r, s') \<Rightarrow> (r, \<lparr>st = s', calls = calls w @ [CreateAnalyticsEvent doc]\<rparr>))"

definition PageLoadModel_find ::
  "'st Store \<Rightarrow> Query \<Rightarrow> 'st World \<Rightarrow> (error + PageLoad list) \<times> 'st World" where
  "PageLoadModel_find S q w =
     (case store_find S q (st w) of
        (r, s') \<Rightarrow> (r, \<lparr>st = s', calls = calls w @ [FindSorted q]\<rparr>))"

section \<open>The request handlers\<close>

text \<open>The slots of the series, and a response: its status and its JSON body.\<close>

record Slot =
  slot_timeKey :: string
  slot_displayTime :: string
  slot_count :: int

datatype response_json = Success | Failure string | Series "Slot list"

record Response =
  status :: nat
  json_body :: response_json

text \<open>
  The environment of one request: the clock reading that \<^verbatim>\<open>new Date()\<close> returns, the
  identifier that \<^verbatim>\<open>uuidv4()\<close> returns, and the locale-dependent \<^verbatim>\<open>toLocaleTimeString\<close>.
  Console output is not modelled.
\<close>

record Env =
  now :: int
  uuidv4 :: string
  toLocaleTimeString :: "Date \<Rightarrow> string"

text \<open>The error middleware: every error passed to \<^verbatim>\<open>next\<close> becomes a 500 response.\<close>

definition errorHandler :: "error \<Rightarrow> Response" where
  "errorHandler err = \<lparr>status = 500, json_body = Failure (message err)\<rparr>"

text \<open>\<^verbatim>\<open>POST /api/analytics/pageload\<close>.\<close>

definition post_pageload ::
  "'st Store \<Rightarrow> Env \<Rightarrow> Request \<Rightarrow> 'st World \<Rightarrow> Response \<times> 'st World" where
  "post_pageload S env req w =
     (let timestamp = newDate (now env) in
      case toISOString timestamp of
        Inl error \<Rightarrow> (errorHandler error, w)
      | Inr isoText \<Rightarrow>
          (let minuteKey = substring isoText 0 16 @ ''0:00'' in
           case PageLoadModel_findOneAndUpdate S
                  \<lparr>f_eventType = ''pageLoad'', f_timeKey = minuteKey\<rparr>
                  \<lparr>inc_count = 1, set_lastUpdated = timestamp\<rparr>
                  \<lparr>upsert = True\<rparr> w of
             (Inl error, w1) \<Rightarrow> (errorHandler error, w1)
           | (Inr _, w1) \<Rightarrow>
               (case PageLoadDetailModel_create S
                       \<lparr>eventType = ''pageLoadDetail'',
                        timeKey = minuteKey @ ''#'' @ uuidv4 env,
                        timestamp = timestamp,
                        userAgent = Some (orElse (headers_user_agent req) ''Unknown''),
                        ipAddress = ip req,
                        referrer = Some (orElse (headers_referer req) ''Direct''),
                        eventData = body req\<rparr> w1 of
                  (Inl error, w2) \<Rightarrow> (errorHandler error, w2)
                | (Inr _, w2) \<Rightarrow> (\<lparr>status = 200, json_body = Success\<rparr>, w2))))"

text \<open>\<^verbatim>\<open>POST /api/analytics/event\<close>.\<close>

definition post_event ::
  "'st Store \<Rightarrow> Env \<Rightarrow> Request \<Rightarrow> 'st World \<Rightarrow> Response \<times> 'st World" where
  "post_event S env req w =
     (case destructure (body req) of
        Inl error \<Rightarrow> (errorHandler error, w)
      | Inr (event, data) \<Rightarrow>
          (let timestamp = newDate (now env) in
           case templateString event of
             Inl error \<Rightarrow> (errorHandler error, w)
           | Inr name \<Rightarrow>
               (case toISOString timestamp of
                  Inl error \<Rightarrow> (errorHandler error, w)
                | Inr isoText \<Rightarrow>
                    (case AnalyticsEventModel_create S
                            \<lparr>eventType = ''event_'' @ name,
                             timeKey = isoText @ ''#'' @ uuidv4 env,
                             timestamp = timestamp,
                             userAgent = Some (orElse (headers_user_agent req) ''Unknown''),
                             ipAddress = ip req,
                             referrer = Some (orElse (headers_referer req) ''Direct''),
                             eventData = data\<rparr> w of
                       (Inl error, w1) \<Rightarrow> (errorHandler error, w1)
                     | (Inr _, w1) \<Rightarrow> (\<lparr>status = 200, json_body = Success\<rparr>, w1)))))"

text \<open>\<^verbatim>\<open>GET /api/analytics/pageloads\<close>: the loop over \<open>i = 0, \<dots>, 59\<close> puts each slot at
  the front of \<open>pageLoads\<close> (\<^verbatim>\<open>unshift\<close>).\<close>

function pageLoadsLoop ::
  "Env \<Rightarrow> Date \<Rightarrow> PageLoad list \<Rightarrow> nat \<Rightarrow> Slot list \<Rightarrow> error + Slot list" where
  "pageLoadsLoop env endTime result i pageLoads =
     (if i < 60 then
        (let minuteTime = dateMinus endTime (int i * 60 * 1000) in
         case toISOString minuteTime of
           Inl error \<Rightarrow> Inl error
         | Inr isoText \<Rightarrow>
             (let minuteKey = substring isoText 0 16 @ ''0:00'';
                  existingRecord = find (\<lambda>item. pl_timeKey item = minuteKey) result
              in pageLoadsLoop env endTime result (i + 1)
                   (\<lparr>slot_timeKey = minuteKey,
                     slot_displayTime = toLocaleTimeString env minuteTime,
                     slot_count = (case existingRecord of Some r \<Rightarrow> pl_count r | None \<Rightarrow> 0)\<rparr>
                    # pageLoads)))
      else Inr pageLoads)"
  by pat_completeness auto
termination
  by (relation "measure (\<lambda>(env, endTime, result, i, pageLoads). 60 - i)") auto

declare pageLoadsLoop.simps [simp del]

definition get_pageloads ::
  "'st Store \<Rightarrow> Env \<Rightarrow> 'st World \<Rightarrow> Response \<times> 'st World" where
  "get_pageloads S env w =
     (let endTime = newDate (now env);
          startTime = dateMinus endTime (60 * 60 * 1000) in
      case toISOString startTime of
        Inl error \<Rightarrow> (errorHandler error, w)
      | Inr isoStart \<Rightarrow>
          (case toISOString endTime of
             Inl error \<Rightarrow> (errorHandler error, w)
           | Inr isoEnd \<Rightarrow>
               (let startTimeKey = substring isoStart 0 16 @ ''0:00'';
                    endTimeKey = substring isoEnd 0 16 @ ''0:00'' in
                case PageLoadModel_find S
                       \<lparr>q_eventType = ''pageLoad'', q_gte = startTimeKey, q_lte = endTimeKey\<rparr> w of
                  (Inl error, w1) \<Rightarrow> (errorHandler error, w1)
                | (Inr result, w1) \<Rightarrow>
                    (case pageLoadsLoop env endTime result 0 [] of
                       Inl error \<Rightarrow> (errorHandler error, w1)
                     | Inr pageLoads \<Rightarrow>
                         (\<lparr>status = 200, json_body = Series pageLoads\<rparr>, w1)))))"

section \<open>A reference store\<close>

text \<open>
  An in-memory store with the documented behaviour of the three collections:
  \<^verbatim>\<open>findOneAndUpdate\<close> updates the first document matching the filter, or with
  \<^verbatim>\<open>upsert\<close> inserts a document made of the filter's fields and the update;
  \<^verbatim>\<open>create\<close> appends; \<^verbatim>\<open>find\<close> filters and sorts. \<open>faults\<close> says which calls the store
  rejects, and with which message; a rejected call leaves the data unchanged. Counts are
  unbounded integers.
\<close>

record Db =
  pageLoads :: "PageLoad list"
  pageLoadDetails :: "PageLoadDetail list"
  analyticsEvents :: "AnalyticsEvent list"

definition matches :: "Filter \<Rightarrow> PageLoad \<Rightarrow> bool" where
  "matches f d \<longleftrightarrow> pl_eventType d = f_eventType f \<and> pl_timeKey d = f_timeKey f"

definition applyUpdate :: "Update \<Rightarrow> PageLoad \<Rightarrow> PageLoad" where
  "applyUpdate u d = d\<lparr>pl_count := pl_count d + inc_count u, pl_lastUpdated := set_lastUpdated u\<rparr>"

definition upsertDoc :: "Filter \<Rightarrow> Update \<Rightarrow> PageLoad" where
  "upsertDoc f u =
     \<lparr>pl_eventType = f_eventType f, pl_timeKey = f_timeKey f,
      pl_count = inc_count u, pl_lastUpdated = set_lastUpdated u\<rparr>"

fun updateFirst :: "Filter \<Rightarrow> Update \<Rightarrow> PageLoad list \<Rightarrow> PageLoad list option" where
  "updateFirst f u [] = None"
| "updateFirst f u (d # ds) =
     (if matches f d then Some (applyUpdate u d # ds)
      else map_option ((#) d) (updateFirst f u ds))"

definition findOneAndUpdate :: "Filter \<Rightarrow> Update \<Rightarrow> Options \<Rightarrow> PageLoad list \<Rightarrow> PageLoad list" where
  "findOneAndUpdate f u opts docs =
     (case updateFirst f u docs of
        Some docs' \<Rightarrow> docs'
      | None \<Rightarrow> if upsert opts then docs @ [upsertDoc f u] else docs)"

definition findSorted :: "Query \<Rightarrow> PageLoad list \<Rightarrow> PageLoad list" where
  "findSorted q docs =
     sort_key pl_timeKey
       (filter (\<lambda>d. pl_eventType d = q_eventType q \<and> q_gte q \<le> pl_timeKey d \<and> pl_timeKey d \<le> q_lte q)
          docs)"

definition mongo :: "(store_call \<Rightarrow> string option) \<Rightarrow> Db Store" where
  "mongo faults =
     \<lparr>store_findOneAndUpdate = (\<lambda>f u opts db.
        case faults (FindOneAndUpdate f u opts) of
          Some m \<Rightarrow> (Inl (StoreError m), db)
        | None \<Rightarrow> (Inr (), db\<lparr>pageLoads := findOneAndUpdate f u opts (pageLoads db)\<rparr>)),
      store_createDetail = (\<lambda>doc db.
        case faults (CreatePageLoadDetail doc) of
          Some m \<Rightarrow> (Inl (StoreError m), db)
        | None \<Rightarrow> (Inr (), db\<lparr>pageLoadDetails := pageLoadDetails db @ [doc]\<rparr>)),
      store_createEvent = (\<lambda>doc db.
        case faults (CreateAnalyticsEvent doc) of
          Some m \<Rightarrow> (Inl (StoreError m), db)
        | None \<Rightarrow> (Inr (), db\<lparr>analyticsEvents := analyticsEvents db @ [doc]\<rparr>)),
      store_find = (\<lambda>q db.
        case faults (FindSorted q) of
          Some m \<Rightarrow> (Inl (StoreError m), db)
        | None \<Rightarrow> (Inr (findSorted q (pageLoads db)), db))\<rparr>"

section \<open>The specification's series and the count of a pair\<close>

subsection \<open>The series of the specification\<close>

text \<open>
  The specification's \<open>buildLast60Minutes\<close>: for \<open>i\<close> from 59 down to 0, the slot of the
  instant \<open>now - i * 60 s\<close>, with the count of the first counter that has the slot's key, or
  0. It is compared with the loop of the handler below.
\<close>

definition seriesSlot :: "Env \<Rightarrow> PageLoad list \<Rightarrow> nat \<Rightarrow> Slot" where
  "seriesSlot env counters i =
     (let minuteTime = now env - int i * 60000; key = bucketKey minuteTime in
      \<lparr>slot_timeKey = key,
       slot_displayTime = toLocaleTimeString env (Some minuteTime),
       slot_count = (case find (\<lambda>c. pl_timeKey c = key) counters of
                       Some c \<Rightarrow> pl_count c | None \<Rightarrow> 0)\<rparr>)"

definition buildLast60Minutes :: "Env \<Rightarrow> PageLoad list \<Rightarrow> Slot list" where
  "buildLast60Minutes env counters = map (seriesSlot env counters) (rev [0..<60])"

subsection \<open>The count of a pair\<close>

text \<open>\<open>countFor e k docs\<close> is the count a reader finds for a pair: that of the first matching
  counter, or 0.\<close>

definition countFor :: "string \<Rightarrow> string \<Rightarrow> PageLoad list \<Rightarrow> int" where
  "countFor e k docs =
     (case find (matches \<lparr>f_eventType = e, f_timeKey = k\<rparr>) docs of
        Some d \<Rightarrow> pl_count d | None \<Rightarrow> 0)"

section \<open>Concrete inputs\<close>

text \<open>A clock reading of 2024-01-01T12:30:00Z, a request and an empty reference store, for
  evaluating the handlers.\<close>

definition env_ex :: Env where
  "env_ex = \<lparr>now = 1704112200000, uuidv4 = ''3f1c'', toLocaleTimeString = (\<lambda>d. ''12:30:00 PM'')\<rparr>"

definition req_ex :: Request where
  "req_ex =
     \<lparr>headers_user_agent = Some ''curl/8.0'', headers_referer = None, ip = Some ''::1'',
      body = Some (JObject [(''url'', JString ''https://example.com'')])\<rparr>"

definition world_ex :: "Db World" where
  "world_ex = \<lparr>st = \<lparr>pageLoads = [], pageLoadDetails = [], analyticsEvents = []\<rparr>, calls = []\<rparr>"

text \<open>A reference store holding three counters, and what the range query of 12:30 returns
  from it.\<close>

definition world_ex2 :: "Db World" where
  "world_ex2 =
     \<lparr>st = \<lparr>pageLoads =
             [\<lparr>pl_eventType = ''pageLoad'', pl_timeKey = ''2024-01-01T12:300:00'',
               pl_count = 3, pl_lastUpdated = Some 1704112200000\<rparr>,
              \<lparr>pl_eventType = ''pageLoad'', pl_timeKey = ''2024-01-01T12:120:00'',
               pl_count = 7, pl_lastUpdated = Some 1704111130000\<rparr>,
              \<lparr>pl_eventType = ''pageLoad'', pl_timeKey = ''2024-01-01T10:120:00'',
               pl_count = 9, pl_lastUpdated = Some 1704103930000\<rparr>],
           pageLoadDetails = [], analyticsEvents = []\<rparr>,
      calls = []\<rparr>"

definition result_ex2 :: "PageLoad list" where
  "result_ex2 =
     [\<lparr>pl_eventType = ''pageLoad'', pl_timeKey = ''2024-01-01T12:120:00'',
       pl_count = 7, pl_lastUpdated = Some 1704111130000\<rparr>,
      \<lparr>pl_eventType = ''pageLoad'', pl_timeKey = ''2024-01-01T12:300:00'',
       pl_count = 3, pl_lastUpdated = Some 1704112200000\<rparr>]"

text \<open>Two requests to the event endpoint: one naming its event, one without an
  \<^verbatim>\<open>event\<close> field.\<close>

definition req_event_ex :: Request where
  "req_event_ex =
     \<lparr>headers_user_agent = None, headers_referer = Some ''https://example.com/'',
      ip = Some ''::1'',
      body = Some (JObject [(''event'', JString ''button_click''),
                            (''data'', JObject [(''buttonId'', JString ''submit-form'')])])\<rparr>"

definition req_noevent_ex :: Request where
  "req_noevent_ex =
     \<lparr>headers_user_agent = Some ''curl/8.0'', headers_referer = None, ip = Some ''::1'',
      body = Some (JObject [(''data'', JNumber ''1'')])\<rparr>"



text \<open>Two fault patterns for the reference store: one rejects every write of a detail or
  event record and every query, the other rejects every counter increment.\<close>

definition faults_ex :: "store_call \<Rightarrow> string option" where
  "faults_ex c =
     (case c of
        FindOneAndUpdate f u opts \<Rightarrow> None
      | CreatePageLoadDetail doc \<Rightarrow> Some ''write failed''
      | CreateAnalyticsEvent doc \<Rightarrow> Some ''Event recording failed''
      | FindSorted q \<Rightarrow> Some ''Database query failed'')"


section \<open>Facts about the calendar and the ISO string\<close>

text \<open>\<open>YearFromDay\<close> is the year ECMAScript specifies: the largest one that starts on or
  before the given day.\<close>

lemma DayFromYear_mono_less: "y < y' \<Longrightarrow> DayFromYear y < DayFromYear y'"
proof (induction y' rule: int_gr_induct)
  case base
  show ?case by (rule DayFromYear_less_succ)
next
  case (step i)
  then show ?case using DayFromYear_less_succ [of i] by linarith
qed

lemma DayFromYear_mono: "y \<le> y' \<Longrightarrow> DayFromYear y \<le> DayFromYear y'"
  using DayFromYear_mono_less [of y y'] by (cases "y = y'") auto

lemma DayFromYear_1970: "DayFromYear 1970 = 0"
  by (simp add: DayFromYear_def)

lemma DayFromYear_upper: "1970 \<le> y \<Longrightarrow> DayFromYear y \<le> 366 * (y - 1970)"
proof (induction y rule: int_ge_induct)
  case base
  show ?case by (simp add: DayFromYear_1970)
next
  case (step i)
  then show ?case using DaysInYear_bounds(2) [of i] by (simp add: DayFromYear_step)
qed

lemma DayFromYear_upper_neg: "y \<le> 1970 \<Longrightarrow> DayFromYear y \<le> 365 * (y - 1970)"
proof (induction y rule: int_le_induct)
  case base
  show ?case by (simp add: DayFromYear_1970)
next
  case (step i)
  then show ?case using DaysInYear_bounds(1) [of "i - 1"] DayFromYear_step [of "i - 1"] by simp
qed

lemma yearLower_ok: "DayFromYear (yearLower d) \<le> d"
proof (cases "0 \<le> d")
  case True
  then have "0 \<le> d div 366" by simp
  then have "DayFromYear (1970 + d div 366) \<le> 366 * (d div 366)"
    using DayFromYear_upper [of "1970 + d div 366"] by simp
  also have "\<dots> \<le> d" using mult_div_mod_eq [of 366 d] pos_mod_sign [of 366 d] by linarith
  finally show ?thesis using True by (simp add: yearLower_def)
next
  case False
  then have "d div 365 \<le> 0" by (simp add: div_nonpos_pos_le0)
  then have "DayFromYear (1970 + d div 365) \<le> 365 * (d div 365)"
    using DayFromYear_upper_neg [of "1970 + d div 365"] by simp
  also have "\<dots> \<le> d" using mult_div_mod_eq [of 365 d] pos_mod_sign [of 365 d] by linarith
  finally show ?thesis using False by (simp add: yearLower_def)
qed

lemma yearUp_bracket:
  "DayFromYear y \<le> d \<Longrightarrow> DayFromYear (yearUp d y) \<le> d \<and> d < DayFromYear (yearUp d y + 1)"
proof (induction d y rule: yearUp.induct)
  case (1 d y)
  show ?case
  proof (cases "DayFromYear (y + 1) \<le> d")
    case True
    then show ?thesis using "1.IH" by (simp add: yearUp.simps [of d y])
  next
    case False
    then show ?thesis using "1.prems" by (simp add: yearUp.simps [of d y])
  qed
qed

lemma YearFromDay_bracket:
  "DayFromYear (YearFromDay d) \<le> d" "d < DayFromYear (YearFromDay d + 1)"
  using yearUp_bracket [OF yearLower_ok, of d] by (simp_all add: YearFromDay_def)

lemma YearFromDay_largest: "DayFromYear y \<le> d \<Longrightarrow> y \<le> YearFromDay d"
proof (rule ccontr)
  assume a: "DayFromYear y \<le> d" and "\<not> y \<le> YearFromDay d"
  then have "YearFromDay d + 1 \<le> y" by simp
  then have "DayFromYear (YearFromDay d + 1) \<le> DayFromYear y" by (rule DayFromYear_mono)
  then show False using a YearFromDay_bracket(2) [of d] by linarith
qed

lemma YearFromDay_mono: "d \<le> d' \<Longrightarrow> YearFromDay d \<le> YearFromDay d'"
  using YearFromDay_bracket(1) [of d] by (intro YearFromDay_largest) linarith

lemma YearFromDay_unique:
  "DayFromYear y \<le> d \<Longrightarrow> d < DayFromYear (y + 1) \<Longrightarrow> YearFromDay d = y"
proof -
  assume a: "DayFromYear y \<le> d" and b: "d < DayFromYear (y + 1)"
  have "y \<le> YearFromDay d" using a by (rule YearFromDay_largest)
  moreover have "\<not> y + 1 \<le> YearFromDay d"
  proof
    assume "y + 1 \<le> YearFromDay d"
    then have "DayFromYear (y + 1) \<le> DayFromYear (YearFromDay d)" by (rule DayFromYear_mono)
    then show False using b YearFromDay_bracket(1) [of d] by linarith
  qed
  ultimately show ?thesis by linarith
qed

text \<open>
  Lexicographic order on strings made of fields of equal width is the lexicographic order
  on the fields, and a zero-padded numeral of fixed width is ordered as its number.
\<close>

lemma digit_less: "a < b \<Longrightarrow> b < 10 \<Longrightarrow> digit a < digit b"
  by (simp add: digit_def less_char_def)

lemma append_less_same_length:
  fixes a a' b b' :: "'a::linorder list"
  assumes "length a = length a'"
  shows "a @ b < a' @ b' \<longleftrightarrow> a < a' \<or> (a = a' \<and> b < b')"
  using assms
proof (induction a arbitrary: a')
  case Nil
  then show ?case by simp
next
  case (Cons x xs)
  then obtain y ys where a': "a' = y # ys" and len: "length xs = length ys"
    by (cases a') auto
  show ?case using Cons.IH [OF len] by (auto simp: a')
qed

lemma append_le_same_length:
  fixes a a' b b' :: "'a::linorder list"
  assumes "length a = length a'"
  shows "a @ b \<le> a' @ b' \<longleftrightarrow> a < a' \<or> (a = a' \<and> b \<le> b')"
  using append_less_same_length [OF assms, of b b'] assms
  by (auto simp: le_less)

lemma length_pad [simp]: "length (pad w n) = w"
  by (induction w arbitrary: n) auto

lemma pad_less:
  "0 \<le> n \<Longrightarrow> n < m \<Longrightarrow> m < 10 ^ w \<Longrightarrow> pad w n < pad w m"
proof (induction w arbitrary: n m)
  case 0
  then show ?case by simp
next
  case (Suc w)
  have le: "n div 10 \<le> m div 10" using Suc.prems by (simp add: zdiv_mono1)
  have nn: "0 \<le> n div 10" using Suc.prems by simp
  have mb: "m div 10 < 10 ^ w" using Suc.prems(3) mult_div_mod_eq [of 10 m] pos_mod_sign [of 10 m] by simp
  show ?case
  proof (cases "n div 10 < m div 10")
    case True
    then have "pad w (n div 10) < pad w (m div 10)" using Suc.IH nn mb by blast
    then show ?thesis by (simp add: append_less_same_length)
  next
    case False
    then have eq: "n div 10 = m div 10" using le by simp
    then have "n mod 10 < m mod 10"
      using Suc.prems(2) mult_div_mod_eq [of 10 n] mult_div_mod_eq [of 10 m] by linarith
    then have "nat (n mod 10) < nat (m mod 10)" "nat (m mod 10) < 10"
      by (simp_all add: nat_less_iff)
    then have "digit (nat (n mod 10)) < digit (nat (m mod 10))" by (rule digit_less)
    then show ?thesis by (simp add: eq append_less_same_length)
  qed
qed

lemma pad_less_iff:
  assumes "0 \<le> n" "n < 10 ^ w" "0 \<le> m" "m < 10 ^ w"
  shows "pad w n < pad w m \<longleftrightarrow> n < m"
proof
  assume l: "pad w n < pad w m"
  show "n < m"
  proof (rule ccontr)
    assume "\<not> n < m"
    then have "m = n \<or> m < n" by linarith
    then show False
    proof
      assume "m = n" then show False using l by simp
    next
      assume "m < n"
      then have "pad w m < pad w n" using assms by (intro pad_less) auto
      then show False using l by simp
    qed
  qed
next
  assume "n < m" then show "pad w n < pad w m" using assms by (intro pad_less) auto
qed

lemma pad_eq_iff:
  assumes "0 \<le> n" "n < 10 ^ w" "0 \<le> m" "m < 10 ^ w"
  shows "pad w n = pad w m \<longleftrightarrow> n = m"
proof
  assume e: "pad w n = pad w m"
  show "n = m"
  proof (rule ccontr)
    assume "n \<noteq> m"
    then have "n < m \<or> m < n" by linarith
    then have "pad w n < pad w m \<or> pad w m < pad w n"
      using assms pad_less [of n m w] pad_less [of m n w] by blast
    then show False using e by simp
  qed
qed simp

lemma monthOf_bounds: "0 \<le> monthOf d l" "monthOf d l \<le> 11"
  by (simp_all add: monthOf_def)

lemma dateOf_bounds:
  assumes "l = 0 \<or> l = 1" "0 \<le> d" "d < 365 + l"
  shows "1 \<le> dateOf d l" "dateOf d l \<le> 31"
  using assms by (auto simp: dateOf_def monthOf_def Let_def)

lemma monthOf_mono: "d1 \<le> d2 \<Longrightarrow> monthOf d1 l \<le> monthOf d2 l"
  by (simp add: monthOf_def)

lemma dateOf_mono_same_month:
  "d1 < d2 \<Longrightarrow> monthOf d1 l = monthOf d2 l \<Longrightarrow> dateOf d1 l < dateOf d2 l"
  by (simp add: dateOf_def Let_def)

definition fmt16 :: "int \<Rightarrow> int \<Rightarrow> int \<Rightarrow> int \<Rightarrow> int \<Rightarrow> string" where
  "fmt16 y mo da h mi =
     pad 4 y @ ''-'' @ pad 2 (mo + 1) @ ''-'' @ pad 2 da @ ''T'' @ pad 2 h @ '':'' @ pad 2 mi"

lemma take16_isoString:
  assumes "0 \<le> YearFromTime t" "YearFromTime t \<le> 9999"
  shows "take 16 (isoString t) =
         fmt16 (YearFromTime t) (MonthFromTime t) (DateFromTime t) (HourFromTime t) (MinFromTime t)"
  using assms by (simp add: isoString_def isoYear_def fmt16_def)

lemma fmt16_less_iff:
  assumes "0 \<le> y" "y \<le> 9999" "0 \<le> mo" "mo \<le> 11" "1 \<le> da" "da \<le> 31"
    "0 \<le> h" "h < 24" "0 \<le> mi" "mi < 60"
    "0 \<le> y'" "y' \<le> 9999" "0 \<le> mo'" "mo' \<le> 11" "1 \<le> da'" "da' \<le> 31"
    "0 \<le> h'" "h' < 24" "0 \<le> mi'" "mi' < 60"
  shows "fmt16 y mo da h mi < fmt16 y' mo' da' h' mi' \<longleftrightarrow>
         y < y' \<or> (y = y' \<and> (mo < mo' \<or> (mo = mo' \<and> (da < da' \<or> (da = da' \<and>
           (h < h' \<or> (h = h' \<and> mi < mi')))))))"
proof -
  have y: "pad 4 y < pad 4 y' \<longleftrightarrow> y < y'" "pad 4 y = pad 4 y' \<longleftrightarrow> y = y'"
    using assms by (simp_all add: pad_less_iff pad_eq_iff)
  have mo: "pad 2 (mo + 1) < pad 2 (mo' + 1) \<longleftrightarrow> mo < mo'"
    "pad 2 (mo + 1) = pad 2 (mo' + 1) \<longleftrightarrow> mo = mo'"
    using assms pad_less_iff [of "mo + 1" 2 "mo' + 1"] pad_eq_iff [of "mo + 1" 2 "mo' + 1"]
    by auto
  have da: "pad 2 da < pad 2 da' \<longleftrightarrow> da < da'" "pad 2 da = pad 2 da' \<longleftrightarrow> da = da'"
    using assms by (simp_all add: pad_less_iff pad_eq_iff)
  have h: "pad 2 h < pad 2 h' \<longleftrightarrow> h < h'" "pad 2 h = pad 2 h' \<longleftrightarrow> h = h'"
    using assms by (simp_all add: pad_less_iff pad_eq_iff)
  have mi: "pad 2 mi < pad 2 mi' \<longleftrightarrow> mi < mi'"
    using assms by (simp_all add: pad_less_iff pad_eq_iff)
  show ?thesis
    unfolding fmt16_def
    by (simp only: append_less_same_length length_pad y mo da h mi append_Cons append_Nil
        Cons_less_Cons less_irrefl simp_thms)
qed

lemma Day_minutes: "Day t = (t div msPerMinute) div 1440"
  by (simp add: Day_def msPerMinute_def msPerDay_def zdiv_zmult2_eq [symmetric])

lemma Hour_minutes: "HourFromTime t = ((t div msPerMinute) div 60) mod 24"
  by (simp add: HourFromTime_def msPerMinute_def msPerHour_def zdiv_zmult2_eq [symmetric])

lemma minute_decomp:
  fixes M :: int
  shows "M = 1440 * (M div 1440) + 60 * ((M div 60) mod 24) + M mod 60"
proof -
  have "M div 1440 = (M div 60) div 24" by (simp add: zdiv_zmult2_eq [symmetric])
  then have "M div 60 = 24 * (M div 1440) + (M div 60) mod 24" by simp
  moreover have "M = 60 * (M div 60) + M mod 60" by simp
  ultimately show ?thesis by linarith
qed

lemma time_fields_bounds:
  "0 \<le> HourFromTime t" "HourFromTime t < 24" "0 \<le> MinFromTime t" "MinFromTime t < 60"
  by (simp_all add: HourFromTime_def MinFromTime_def)

lemma time_lex:
  assumes "t1 div msPerMinute < t2 div msPerMinute"
  shows "Day t1 < Day t2 \<or> (Day t1 = Day t2 \<and> (HourFromTime t1 < HourFromTime t2 \<or>
           (HourFromTime t1 = HourFromTime t2 \<and> MinFromTime t1 < MinFromTime t2)))"
proof -
  have a: "t1 div msPerMinute = 1440 * Day t1 + 60 * HourFromTime t1 + MinFromTime t1"
    using minute_decomp [of "t1 div msPerMinute"]
    by (simp add: Day_minutes Hour_minutes MinFromTime_def)
  have b: "t2 div msPerMinute = 1440 * Day t2 + 60 * HourFromTime t2 + MinFromTime t2"
    using minute_decomp [of "t2 div msPerMinute"]
    by (simp add: Day_minutes Hour_minutes MinFromTime_def)
  show ?thesis
    using assms a b time_fields_bounds [of t1] time_fields_bounds [of t2] by linarith
qed

lemma InLeapYear_cases: "InLeapYear t = 0 \<or> InLeapYear t = 1"
  by (simp add: InLeapYear_def)

lemma DaysInYear_InLeapYear: "DaysInYear (YearFromTime t) = 365 + InLeapYear t"
  by (simp add: InLeapYear_def DaysInYear_def)

lemma DayWithinYear_bounds: "0 \<le> DayWithinYear t" "DayWithinYear t < 365 + InLeapYear t"
  using YearFromDay_bracket [of "Day t"] DayFromYear_step [of "YearFromTime t"]
  by (simp_all add: DayWithinYear_def YearFromTime_def DaysInYear_InLeapYear [symmetric])

lemma date_fields_bounds:
  "0 \<le> MonthFromTime t" "MonthFromTime t \<le> 11" "1 \<le> DateFromTime t" "DateFromTime t \<le> 31"
  using monthOf_bounds [of "DayWithinYear t" "InLeapYear t"]
    dateOf_bounds [OF InLeapYear_cases DayWithinYear_bounds, of t]
  by (simp_all add: MonthFromTime_def DateFromTime_def)

lemma date_lex:
  assumes "Day t1 < Day t2"
  shows "YearFromTime t1 < YearFromTime t2 \<or> (YearFromTime t1 = YearFromTime t2 \<and>
           (MonthFromTime t1 < MonthFromTime t2 \<or>
             (MonthFromTime t1 = MonthFromTime t2 \<and> DateFromTime t1 < DateFromTime t2)))"
proof (cases "YearFromTime t1 = YearFromTime t2")
  case True
  then have l: "InLeapYear t1 = InLeapYear t2" by (simp add: InLeapYear_def)
  have d: "DayWithinYear t1 < DayWithinYear t2"
    using assms True by (simp add: DayWithinYear_def)
  have "MonthFromTime t1 \<le> MonthFromTime t2"
    using monthOf_mono [of "DayWithinYear t1" "DayWithinYear t2" "InLeapYear t2"] d
    by (simp add: MonthFromTime_def l)
  moreover have "MonthFromTime t1 = MonthFromTime t2 \<Longrightarrow> DateFromTime t1 < DateFromTime t2"
    using dateOf_mono_same_month [of "DayWithinYear t1" "DayWithinYear t2" "InLeapYear t2"] d
    by (simp add: MonthFromTime_def DateFromTime_def l)
  ultimately show ?thesis using True by fastforce
next
  case False
  have "YearFromTime t1 \<le> YearFromTime t2"
    using assms by (simp add: YearFromTime_def YearFromDay_mono)
  then show ?thesis using False by simp
qed

lemma date_same:
  assumes "Day t1 = Day t2"
  shows "YearFromTime t1 = YearFromTime t2" "MonthFromTime t1 = MonthFromTime t2"
    "DateFromTime t1 = DateFromTime t2"
  using assms
  by (simp_all add: YearFromTime_def MonthFromTime_def DateFromTime_def DayWithinYear_def
      InLeapYear_def)

lemma take16_strict_mono:
  assumes "t1 div msPerMinute < t2 div msPerMinute"
    and "0 \<le> YearFromTime t1" and "YearFromTime t2 \<le> 9999"
  shows "take 16 (isoString t1) < take 16 (isoString t2)"
proof -
  have "t1 div msPerMinute \<le> t2 div msPerMinute" using assms(1) by simp
  then have "Day t1 \<le> Day t2" by (simp add: Day_minutes zdiv_mono1)
  then have ym: "YearFromTime t1 \<le> YearFromTime t2"
    by (simp add: YearFromTime_def YearFromDay_mono)
  have y1: "0 \<le> YearFromTime t1" "YearFromTime t1 \<le> 9999" using assms ym by auto
  have y2: "0 \<le> YearFromTime t2" "YearFromTime t2 \<le> 9999" using assms ym by auto
  have lex: "YearFromTime t1 < YearFromTime t2 \<or> (YearFromTime t1 = YearFromTime t2 \<and>
      (MonthFromTime t1 < MonthFromTime t2 \<or> (MonthFromTime t1 = MonthFromTime t2 \<and>
      (DateFromTime t1 < DateFromTime t2 \<or> (DateFromTime t1 = DateFromTime t2 \<and>
      (HourFromTime t1 < HourFromTime t2 \<or> (HourFromTime t1 = HourFromTime t2 \<and>
       MinFromTime t1 < MinFromTime t2)))))))"
    using time_lex [OF assms(1)] date_lex [of t1 t2] date_same [of t1 t2] by blast
  show ?thesis
    unfolding take16_isoString [OF y1] take16_isoString [OF y2]
    using lex
    by (subst fmt16_less_iff)
       (use y1 y2 date_fields_bounds [of t1] date_fields_bounds [of t2]
          time_fields_bounds [of t1] time_fields_bounds [of t2] in simp_all)
qed

lemma take16_same_minute:
  assumes "t1 div msPerMinute = t2 div msPerMinute"
    and "0 \<le> YearFromTime t1" and "YearFromTime t1 \<le> 9999"
  shows "take 16 (isoString t1) = take 16 (isoString t2)"
proof -
  have d: "Day t1 = Day t2" using assms(1) by (simp add: Day_minutes)
  have y: "YearFromTime t2 = YearFromTime t1" using date_same(1) [OF d] by simp
  have y2: "0 \<le> YearFromTime t2" "YearFromTime t2 \<le> 9999" using assms y by auto
  show ?thesis
    unfolding take16_isoString [OF assms(2,3)] take16_isoString [OF y2]
    using date_same [OF d] assms(1) by (simp add: Hour_minutes MinFromTime_def)
qed

text \<open>The key is strictly monotone in the minute, within the four-digit years.\<close>

lemma length_fmt16: "length (fmt16 y mo da h mi) = 16"
  by (simp add: fmt16_def)

lemma bucketKey_strict_mono:
  assumes "t1 div msPerMinute < t2 div msPerMinute"
    and "0 \<le> YearFromTime t1" and "YearFromTime t2 \<le> 9999"
  shows "bucketKey t1 < bucketKey t2"
proof -
  have "Day t1 \<le> Day t2" using assms(1) by (simp add: Day_minutes zdiv_mono1)
  then have ym: "YearFromTime t1 \<le> YearFromTime t2"
    by (simp add: YearFromTime_def YearFromDay_mono)
  have y1: "0 \<le> YearFromTime t1" "YearFromTime t1 \<le> 9999" using assms ym by auto
  have y2: "0 \<le> YearFromTime t2" "YearFromTime t2 \<le> 9999" using assms ym by auto
  have "length (take 16 (isoString t1)) = length (take 16 (isoString t2))"
    unfolding take16_isoString [OF y1] take16_isoString [OF y2] by (simp add: length_fmt16)
  then show ?thesis
    unfolding bucketKey_def using take16_strict_mono [OF assms]
    by (simp only: append_less_same_length simp_thms)
qed

lemma bucketKey_same_minute:
  assumes "t1 div msPerMinute = t2 div msPerMinute"
    and "0 \<le> YearFromTime t1" and "YearFromTime t1 \<le> 9999"
  shows "bucketKey t1 = bucketKey t2"
  unfolding bucketKey_def using take16_same_minute [OF assms] by simp

lemma bucketKey_less_iff:
  assumes "0 \<le> YearFromTime t1" "YearFromTime t1 \<le> 9999"
    and "0 \<le> YearFromTime t2" "YearFromTime t2 \<le> 9999"
  shows "bucketKey t1 < bucketKey t2 \<longleftrightarrow> t1 div msPerMinute < t2 div msPerMinute"
proof
  assume l: "bucketKey t1 < bucketKey t2"
  show "t1 div msPerMinute < t2 div msPerMinute"
  proof (rule ccontr)
    assume "\<not> t1 div msPerMinute < t2 div msPerMinute"
    then consider "t1 div msPerMinute = t2 div msPerMinute" | "t2 div msPerMinute < t1 div msPerMinute"
      by linarith
    then show False
    proof cases
      case 1
      then show False using l bucketKey_same_minute [OF 1 assms(1,2)] by simp
    next
      case 2
      then show False using l bucketKey_strict_mono [OF 2 assms(3) assms(2)] by simp
    qed
  qed
next
  assume "t1 div msPerMinute < t2 div msPerMinute"
  then show "bucketKey t1 < bucketKey t2" using assms by (intro bucketKey_strict_mono)
qed

lemma bucketKey_eq_iff:
  assumes "0 \<le> YearFromTime t1" "YearFromTime t1 \<le> 9999"
    and "0 \<le> YearFromTime t2" "YearFromTime t2 \<le> 9999"
  shows "bucketKey t1 = bucketKey t2 \<longleftrightarrow> t1 div msPerMinute = t2 div msPerMinute"
proof
  assume e: "bucketKey t1 = bucketKey t2"
  show "t1 div msPerMinute = t2 div msPerMinute"
  proof (rule ccontr)
    assume "t1 div msPerMinute \<noteq> t2 div msPerMinute"
    then have "t1 div msPerMinute < t2 div msPerMinute \<or> t2 div msPerMinute < t1 div msPerMinute"
      by linarith
    then have "bucketKey t1 < bucketKey t2 \<or> bucketKey t2 < bucketKey t1"
      using bucketKey_less_iff [OF assms] bucketKey_less_iff [OF assms(3,4) assms(1,2)] by blast
    then show False using e by simp
  qed
next
  assume "t1 div msPerMinute = t2 div msPerMinute"
  then show "bucketKey t1 = bucketKey t2" using assms by (intro bucketKey_same_minute)
qed

section \<open>Facts about the handlers\<close>

lemma substring_0_16: "substring s 0 16 = take 16 s"
  by (simp add: substring_def Let_def min_def max_def)

lemma newDate_valid: "\<bar>t\<bar> \<le> maxTime \<Longrightarrow> newDate t = Some t"
  by (simp add: newDate_def)

lemma toISOString_Some: "toISOString (Some t) = Inr (isoString t)"
  by (simp add: toISOString_def)

lemma minuteKey_bucketKey: "substring (isoString t) 0 16 @ ''0:00'' = bucketKey t"
  by (simp add: substring_0_16 bucketKey_def)

lemma post_pageload_unfold:
  fixes S :: "'st Store"
  assumes "\<bar>now env\<bar> \<le> maxTime"
  shows "post_pageload S env req w =
    (case store_findOneAndUpdate S
            \<lparr>f_eventType = ''pageLoad'', f_timeKey = bucketKey (now env)\<rparr>
            \<lparr>inc_count = 1, set_lastUpdated = Some (now env)\<rparr>
            \<lparr>upsert = True\<rparr> (st w) of
       (Inl e, s1) \<Rightarrow>
         (errorHandler e,
          \<lparr>st = s1, calls = calls w @
            [FindOneAndUpdate \<lparr>f_eventType = ''pageLoad'', f_timeKey = bucketKey (now env)\<rparr>
               \<lparr>inc_count = 1, set_lastUpdated = Some (now env)\<rparr> \<lparr>upsert = True\<rparr>]\<rparr>)
     | (Inr u, s1) \<Rightarrow>
         (case store_createDetail S
                 \<lparr>eventType = ''pageLoadDetail'',
                  timeKey = bucketKey (now env) @ ''#'' @ uuidv4 env,
                  timestamp = Some (now env),
                  userAgent = Some (orElse (headers_user_agent req) ''Unknown''),
                  ipAddress = ip req,
                  referrer = Some (orElse (headers_referer req) ''Direct''),
                  eventData = body req\<rparr> s1 of
            (r, s2) \<Rightarrow>
              ((case r of Inl e \<Rightarrow> errorHandler e
                | Inr u \<Rightarrow> \<lparr>status = 200, json_body = Success\<rparr>),
               \<lparr>st = s2, calls = calls w @
                 [FindOneAndUpdate \<lparr>f_eventType = ''pageLoad'', f_timeKey = bucketKey (now env)\<rparr>
                    \<lparr>inc_count = 1, set_lastUpdated = Some (now env)\<rparr> \<lparr>upsert = True\<rparr>,
                  CreatePageLoadDetail
                    \<lparr>eventType = ''pageLoadDetail'',
                     timeKey = bucketKey (now env) @ ''#'' @ uuidv4 env,
                     timestamp = Some (now env),
                     userAgent = Some (orElse (headers_user_agent req) ''Unknown''),
                     ipAddress = ip req,
                     referrer = Some (orElse (headers_referer req) ''Direct''),
                     eventData = body req\<rparr>]\<rparr>)))"
  using assms
  by (simp add: post_pageload_def newDate_valid toISOString_Some minuteKey_bucketKey Let_def
      PageLoadModel_findOneAndUpdate_def PageLoadDetailModel_create_def
      split: prod.splits sum.splits)

lemma status_errorHandler: "status (errorHandler e) = 500"
  by (simp add: errorHandler_def)

lemma post_pageload_invalid:
  "\<not> \<bar>now env\<bar> \<le> maxTime \<Longrightarrow> post_pageload S env req w = (errorHandler (RangeError ''Invalid time value''), w)"
  by (simp add: post_pageload_def newDate_def toISOString_def)

lemma valid_minutes:
  assumes "\<bar>n\<bar> \<le> maxTime" "\<bar>n - 3600000\<bar> \<le> maxTime" "i < 60"
  shows "\<bar>n - int i * 60000\<bar> \<le> maxTime"
  using assms by linarith

lemma pageLoadsLoop_eval:
  assumes "\<bar>now env\<bar> \<le> maxTime" "\<bar>now env - 3600000\<bar> \<le> maxTime"
  shows "i \<le> 60 \<Longrightarrow>
    pageLoadsLoop env (Some (now env)) result i acc =
      Inr (map (seriesSlot env result) (rev [i..<60]) @ acc)"
proof (induction "60 - i" arbitrary: i acc)
  case 0
  then have "i = 60" by simp
  then show ?case by (simp add: pageLoadsLoop.simps [of _ _ _ 60])
next
  case (Suc k)
  then have i: "i < 60" by simp
  have v: "\<bar>now env - int i * 60000\<bar> \<le> maxTime"
    using valid_minutes [OF assms i] .
  have k: "k = 60 - (i + 1)" using Suc.hyps(2) by simp
  have step: "pageLoadsLoop env (Some (now env)) result i acc =
      pageLoadsLoop env (Some (now env)) result (i + 1) (seriesSlot env result i # acc)"
    using i v
    by (subst pageLoadsLoop.simps)
       (simp add: dateMinus_def newDate_valid toISOString_Some minuteKey_bucketKey
          seriesSlot_def Let_def mult.commute)
  have "[i..<60] = i # [i + 1..<60]" using i by (simp add: upt_conv_Cons)
  then show ?case
    using Suc.hyps(1) [OF k, of "seriesSlot env result i # acc"] i step by simp
qed

lemma get_pageloads_unfold:
  fixes S :: "'st Store"
  assumes "\<bar>now env\<bar> \<le> maxTime" "\<bar>now env - 3600000\<bar> \<le> maxTime"
  shows "get_pageloads S env w =
    (case store_find S
            \<lparr>q_eventType = ''pageLoad'', q_gte = bucketKey (now env - 3600000),
             q_lte = bucketKey (now env)\<rparr> (st w) of
       (r, s1) \<Rightarrow>
         ((case r of
             Inl e \<Rightarrow> errorHandler e
           | Inr result \<Rightarrow> \<lparr>status = 200, json_body = Series (buildLast60Minutes env result)\<rparr>),
          \<lparr>st = s1, calls = calls w @
             [FindSorted \<lparr>q_eventType = ''pageLoad'', q_gte = bucketKey (now env - 3600000),
                q_lte = bucketKey (now env)\<rparr>]\<rparr>))"
  using assms pageLoadsLoop_eval [OF assms, of 0 _ "[]"]
  by (simp add: get_pageloads_def dateMinus_def newDate_valid toISOString_Some
      minuteKey_bucketKey Let_def PageLoadModel_find_def buildLast60Minutes_def
      split: prod.splits sum.splits)

lemma length_buildLast60Minutes: "length (buildLast60Minutes env counters) = 60"
  by (simp add: buildLast60Minutes_def)

lemma nth_buildLast60Minutes:
  "k < 60 \<Longrightarrow> buildLast60Minutes env counters ! k = seriesSlot env counters (59 - k)"
  by (simp add: buildLast60Minutes_def rev_nth)

lemma calls_post_pageload:
  fixes S :: "'st Store"
  assumes "\<bar>now env\<bar> \<le> maxTime"
  shows "\<exists>u opts rest. calls (snd (post_pageload S env req w)) =
           calls w @ FindOneAndUpdate
             \<lparr>f_eventType = ''pageLoad'', f_timeKey = bucketKey (now env)\<rparr> u opts # rest"
  unfolding post_pageload_unfold [OF assms]
  by (auto split: prod.splits sum.splits)

lemma calls_get_pageloads:
  fixes S :: "'st Store"
  assumes "\<bar>now env\<bar> \<le> maxTime" "\<bar>now env - 3600000\<bar> \<le> maxTime"
  shows "calls (snd (get_pageloads S env w)) =
           calls w @ [FindSorted \<lparr>q_eventType = ''pageLoad'',
             q_gte = bucketKey (now env - 3600000), q_lte = bucketKey (now env)\<rparr>]"
  unfolding get_pageloads_unfold [OF assms]
  by (auto split: prod.splits sum.splits)

lemma slot_timeKey_seriesSlot:
  "slot_timeKey (seriesSlot env counters i) = bucketKey (now env - int i * 60000)"
  by (simp add: seriesSlot_def Let_def)

lemma post_event_unfold:
  fixes S :: "'st Store"
  assumes "\<bar>now env\<bar> \<le> maxTime"
    and "destructure (body req) = Inr (event, data)"
    and "templateString event = Inr name"
  shows "post_event S env req w =
    (case store_createEvent S
            \<lparr>eventType = ''event_'' @ name,
             timeKey = isoString (now env) @ ''#'' @ uuidv4 env,
             timestamp = Some (now env),
             userAgent = Some (orElse (headers_user_agent req) ''Unknown''),
             ipAddress = ip req,
             referrer = Some (orElse (headers_referer req) ''Direct''),
             eventData = data\<rparr> (st w) of
       (r, s1) \<Rightarrow>
         ((case r of Inl e \<Rightarrow> errorHandler e
           | Inr u \<Rightarrow> \<lparr>status = 200, json_body = Success\<rparr>),
          \<lparr>st = s1, calls = calls w @
            [CreateAnalyticsEvent
               \<lparr>eventType = ''event_'' @ name,
                timeKey = isoString (now env) @ ''#'' @ uuidv4 env,
                timestamp = Some (now env),
                userAgent = Some (orElse (headers_user_agent req) ''Unknown''),
                ipAddress = ip req,
                referrer = Some (orElse (headers_referer req) ''Direct''),
                eventData = data\<rparr>]\<rparr>))"
  using assms
  by (simp add: post_event_def newDate_valid toISOString_Some Let_def
      AnalyticsEventModel_create_def split: prod.splits sum.splits)

lemma post_event_invalid:
  assumes "\<not> \<bar>now env\<bar> \<le> maxTime"
  shows "status (fst (post_event S env req w)) = 500"
  using assms
  by (simp add: post_event_def newDate_def toISOString_def Let_def status_errorHandler
      split: prod.splits sum.splits)

lemma destructure_object:
  "destructure (Some (JObject kvs)) = Inr (map_of kvs ''event'', map_of kvs ''data'')"
  by (simp add: destructure_def)

lemma destructure_nonnull:
  "j \<noteq> JNull \<Longrightarrow> destructure (Some j) = Inr (getProp j ''event'', getProp j ''data'')"
  by (cases j) (simp_all add: destructure_def)

lemma matches_applyUpdate [simp]: "matches f (applyUpdate u d) = matches f d"
  by (simp add: matches_def applyUpdate_def)

lemma matches_upsertDoc [simp]:
  "matches g (upsertDoc f u) \<longleftrightarrow> f_eventType f = f_eventType g \<and> f_timeKey f = f_timeKey g"
  by (simp add: matches_def upsertDoc_def)

lemma updateFirst_None: "updateFirst f u docs = None \<Longrightarrow> filter (matches f) docs = []"
  by (induction docs) (auto split: if_splits)

lemma updateFirst_Some:
  "updateFirst f u docs = Some docs' \<Longrightarrow>
   \<exists>d ds. filter (matches f) docs = d # ds \<and> filter (matches f) docs' = applyUpdate u d # ds"
  by (induction docs arbitrary: docs') (auto split: if_splits)

lemma filter_findOneAndUpdate_same:
  "filter (matches f) (findOneAndUpdate f u opts docs) =
     (case filter (matches f) docs of
        [] \<Rightarrow> if upsert opts then [upsertDoc f u] else []
      | d # ds \<Rightarrow> applyUpdate u d # ds)"
proof (cases "updateFirst f u docs")
  case None
  then show ?thesis using updateFirst_None [OF None] by (simp add: findOneAndUpdate_def)
next
  case (Some docs')
  then show ?thesis using updateFirst_Some [OF Some] by (auto simp: findOneAndUpdate_def)
qed

lemma find_filter_hd: "find P xs = (case filter P xs of [] \<Rightarrow> None | x # _ \<Rightarrow> Some x)"
  by (induction xs) auto

lemma countFor_findOneAndUpdate:
  assumes "upsert opts"
  shows "countFor e k (findOneAndUpdate \<lparr>f_eventType = e, f_timeKey = k\<rparr> u opts docs) =
         countFor e k docs + inc_count u"
  using assms
  by (simp add: countFor_def find_filter_hd filter_findOneAndUpdate_same upsertDoc_def
      applyUpdate_def split: list.splits)







section \<open>The claims\<close>

subsection \<open>C1\<close>

text \<open>
  C1: the expression the source writes, \<^verbatim>\<open>toISOString().substring(0, 16) + '0:00'\<close>, is the
  first 16 characters of the ISO string followed by \<open>''0:00''\<close>, which is \<open>bucketKey\<close>; and for
  a valid clock reading (valid also one hour earlier, as the query handler needs) the
  page-load handler increments the counter of the key \<open>bucketKey now\<close>, the query handler
  asks for the keys from \<open>bucketKey (now - 60 min)\<close> to \<open>bucketKey now\<close>, and the loop that
  builds the 60 slots gives the slot of \<open>i\<close> the key \<open>bucketKey (now - i * 60 s)\<close>.
\<close>

theorem C1_minute_keys:
  fixes S :: "'st Store"
  assumes "\<bar>now env\<bar> \<le> maxTime" and "\<bar>now env - 3600000\<bar> \<le> maxTime"
  shows "substring (isoString t) 0 16 @ ''0:00'' = take 16 (isoString t) @ ''0:00'' \<and>
         bucketKey t = take 16 (isoString t) @ ''0:00'' \<and>
         (\<exists>u opts rest. calls (snd (post_pageload S env req w)) =
            calls w @ FindOneAndUpdate
              \<lparr>f_eventType = ''pageLoad'', f_timeKey = bucketKey (now env)\<rparr> u opts # rest) \<and>
         calls (snd (get_pageloads S env w)) =
            calls w @ [FindSorted \<lparr>q_eventType = ''pageLoad'',
              q_gte = bucketKey (now env - 3600000), q_lte = bucketKey (now env)\<rparr>] \<and>
         (\<exists>slots. pageLoadsLoop env (newDate (now env)) result 0 [] = Inr slots \<and>
            map slot_timeKey slots =
              map (\<lambda>i. bucketKey (now env - int i * 60000)) (rev [0..<60]))"
proof -
  have "pageLoadsLoop env (newDate (now env)) result 0 [] =
          Inr (map (seriesSlot env result) (rev [0..<60]))"
    using pageLoadsLoop_eval [OF assms, of 0 result "[]"] assms(1) by (simp add: newDate_valid)
  moreover have "map slot_timeKey (map (seriesSlot env result) (rev [0..<60])) =
      map (\<lambda>i. bucketKey (now env - int i * 60000)) (rev [0..<60])"
    by (simp add: slot_timeKey_seriesSlot comp_def)
  ultimately have loop: "\<exists>slots. pageLoadsLoop env (newDate (now env)) result 0 [] = Inr slots \<and>
            map slot_timeKey slots =
              map (\<lambda>i. bucketKey (now env - int i * 60000)) (rev [0..<60])"
    by blast
  show ?thesis
    using calls_post_pageload [OF assms(1), of S req w] calls_get_pageloads [OF assms, of S w] loop
    by (simp add: substring_0_16 bucketKey_def)
qed

theorem C1_minute_keys_witness:
  "\<bar>now env_ex\<bar> \<le> maxTime \<and> \<bar>now env_ex - 3600000\<bar> \<le> maxTime \<and>
   bucketKey (now env_ex) = ''2024-01-01T12:300:00'' \<and>
   bucketKey (now env_ex - 3600000) = ''2024-01-01T11:300:00'' \<and>
   (\<exists>u opts rest. calls (snd (post_pageload (mongo (\<lambda>c. None)) env_ex req_ex world_ex)) =
      calls world_ex @ FindOneAndUpdate
        \<lparr>f_eventType = ''pageLoad'', f_timeKey = ''2024-01-01T12:300:00''\<rparr> u opts # rest) \<and>
   calls (snd (get_pageloads (mongo (\<lambda>c. None)) env_ex world_ex)) =
      calls world_ex @ [FindSorted \<lparr>q_eventType = ''pageLoad'',
        q_gte = ''2024-01-01T11:300:00'', q_lte = ''2024-01-01T12:300:00''\<rparr>]"
proof -
  have h1: "\<bar>now env_ex\<bar> \<le> maxTime" by (simp add: env_ex_def maxTime_def)
  have h2: "\<bar>now env_ex - 3600000\<bar> \<le> maxTime" by (simp add: env_ex_def maxTime_def)
  have k1: "bucketKey (now env_ex) = ''2024-01-01T12:300:00''" by code_simp
  have k2: "bucketKey (now env_ex - 3600000) = ''2024-01-01T11:300:00''" by code_simp
  note c = C1_minute_keys [OF h1 h2, of _ "mongo (\<lambda>c. None)" req_ex world_ex, unfolded k1 k2]
  show ?thesis
    using h1 h2 k1 k2 c [THEN conjunct2, THEN conjunct2, THEN conjunct1]
      c [THEN conjunct2, THEN conjunct2, THEN conjunct2, THEN conjunct1]
    by blast
qed

subsection \<open>C2\<close>

text \<open>
  C2, as stated, fails: the instants 2024-01-01T12:30:00Z and 2024-01-01T12:31:00Z have ISO
  strings that agree on their first 15 characters (through the tens digit of the minute),
  and their keys differ, \<open>''2024-01-01T12:300:00''\<close> and \<open>''2024-01-01T12:310:00''\<close>: the
  16th character of the ISO string is the ones digit of the minute, and the key keeps it.
\<close>

theorem C2_counterexample:
  "take 15 (isoString 1704112200000) = take 15 (isoString 1704112260000) \<and>
   bucketKey 1704112200000 \<noteq> bucketKey 1704112260000"
  by code_simp

text \<open>
  C2, amended: instants whose ISO strings agree on the first 16 characters (through the ones
  digit of the minute) have the same key; and for instants in the years 0000 to 9999 two
  keys are equal exactly when the instants lie in the same UTC minute, so that the key
  distinguishes single minutes.
\<close>

theorem C2_one_minute_granularity:
  "(take 16 (isoString t1) = take 16 (isoString t2) \<longrightarrow> bucketKey t1 = bucketKey t2) \<and>
   (0 \<le> YearFromTime t1 \<and> YearFromTime t1 \<le> 9999 \<and>
    0 \<le> YearFromTime t2 \<and> YearFromTime t2 \<le> 9999 \<longrightarrow>
      (bucketKey t1 = bucketKey t2 \<longleftrightarrow> t1 div msPerMinute = t2 div msPerMinute))"
  using bucketKey_eq_iff [of t1 t2] by (simp add: bucketKey_def)

theorem C2_one_minute_granularity_witness:
  "(0 \<le> YearFromTime 1704112200000 \<and> YearFromTime 1704112200000 \<le> 9999 \<and>
    0 \<le> YearFromTime 1704112259999 \<and> YearFromTime 1704112259999 \<le> 9999) \<and>
   take 16 (isoString 1704112200000) = take 16 (isoString 1704112259999) \<and>
   bucketKey 1704112200000 = bucketKey 1704112259999 \<and>
   (1704112200000::int) div msPerMinute = 1704112259999 div msPerMinute"
proof -
  have y: "0 \<le> YearFromTime 1704112200000" "YearFromTime 1704112200000 \<le> 9999"
    "0 \<le> YearFromTime 1704112259999" "YearFromTime 1704112259999 \<le> 9999"
    by code_simp+
  have m: "(1704112200000::int) div msPerMinute = 1704112259999 div msPerMinute"
    by (simp add: msPerMinute_def)
  have p: "take 16 (isoString 1704112200000) = take 16 (isoString 1704112259999)"
    by code_simp
  show ?thesis
    using C2_one_minute_granularity [of 1704112200000 1704112259999] y m p by simp
qed

subsection \<open>C3\<close>

text \<open>
  C3: when the clock reading and the instant one hour before it are valid time values and the
  store answers the range query, \<^verbatim>\<open>GET /api/analytics/pageloads\<close> asks the store once, for
  eventType \<open>''pageLoad''\<close> and timeKey between \<open>bucketKey (now - 60 min)\<close> and
  \<open>bucketKey now\<close> inclusive, and answers 200 with exactly 60 slots, whatever list of
  counters the store returned. The slot at position \<open>k\<close> (oldest first) is the one of
  \<open>i = 59 - k\<close>: its timeKey is \<open>bucketKey (now - i * 60 s)\<close>, its displayTime the locale time
  of that instant, and its count that of the first returned counter with exactly this
  timeKey, or 0 when there is none.
\<close>

theorem C3_pageloads_series:
  fixes S :: "'st Store"
  assumes "\<bar>now env\<bar> \<le> maxTime" and "\<bar>now env - 3600000\<bar> \<le> maxTime"
    and "store_find S
           \<lparr>q_eventType = ''pageLoad'', q_gte = bucketKey (now env - 3600000),
            q_lte = bucketKey (now env)\<rparr> (st w) = (Inr result, s1)"
  shows "get_pageloads S env w =
           (\<lparr>status = 200, json_body = Series (buildLast60Minutes env result)\<rparr>,
            \<lparr>st = s1, calls = calls w @
               [FindSorted \<lparr>q_eventType = ''pageLoad'', q_gte = bucketKey (now env - 3600000),
                  q_lte = bucketKey (now env)\<rparr>]\<rparr>) \<and>
         length (buildLast60Minutes env result) = 60 \<and>
         (\<forall>k<60. buildLast60Minutes env result ! k =
            \<lparr>slot_timeKey = bucketKey (now env - int (59 - k) * 60000),
             slot_displayTime = toLocaleTimeString env (Some (now env - int (59 - k) * 60000)),
             slot_count =
               (case find (\<lambda>c. pl_timeKey c = bucketKey (now env - int (59 - k) * 60000)) result of
                  Some c \<Rightarrow> pl_count c | None \<Rightarrow> 0)\<rparr>)"
proof (intro conjI allI impI)
  show "get_pageloads S env w =
           (\<lparr>status = 200, json_body = Series (buildLast60Minutes env result)\<rparr>,
            \<lparr>st = s1, calls = calls w @
               [FindSorted \<lparr>q_eventType = ''pageLoad'', q_gte = bucketKey (now env - 3600000),
                  q_lte = bucketKey (now env)\<rparr>]\<rparr>)"
    unfolding get_pageloads_unfold [OF assms(1,2)] using assms(3) by simp
next
  show "length (buildLast60Minutes env result) = 60" by (rule length_buildLast60Minutes)
next
  fix k :: nat
  assume "k < 60"
  then show "buildLast60Minutes env result ! k =
            \<lparr>slot_timeKey = bucketKey (now env - int (59 - k) * 60000),
             slot_displayTime = toLocaleTimeString env (Some (now env - int (59 - k) * 60000)),
             slot_count =
               (case find (\<lambda>c. pl_timeKey c = bucketKey (now env - int (59 - k) * 60000)) result of
                  Some c \<Rightarrow> pl_count c | None \<Rightarrow> 0)\<rparr>"
    by (simp add: nth_buildLast60Minutes seriesSlot_def Let_def)
qed


theorem C3_pageloads_series_witness:
  "\<bar>now env_ex\<bar> \<le> maxTime \<and> \<bar>now env_ex - 3600000\<bar> \<le> maxTime \<and>
   store_find (mongo (\<lambda>c. None))
     \<lparr>q_eventType = ''pageLoad'', q_gte = bucketKey (now env_ex - 3600000),
      q_lte = bucketKey (now env_ex)\<rparr> (st world_ex2) = (Inr result_ex2, st world_ex2) \<and>
   get_pageloads (mongo (\<lambda>c. None)) env_ex world_ex2 =
     (\<lparr>status = 200, json_body = Series (buildLast60Minutes env_ex result_ex2)\<rparr>,
      \<lparr>st = st world_ex2, calls = calls world_ex2 @
         [FindSorted \<lparr>q_eventType = ''pageLoad'', q_gte = bucketKey (now env_ex - 3600000),
            q_lte = bucketKey (now env_ex)\<rparr>]\<rparr>) \<and>
   length (buildLast60Minutes env_ex result_ex2) = 60 \<and>
   buildLast60Minutes env_ex result_ex2 ! 59 =
     \<lparr>slot_timeKey = ''2024-01-01T12:300:00'', slot_displayTime = ''12:30:00 PM'',
      slot_count = 3\<rparr> \<and>
   buildLast60Minutes env_ex result_ex2 ! 41 =
     \<lparr>slot_timeKey = ''2024-01-01T12:120:00'', slot_displayTime = ''12:30:00 PM'',
      slot_count = 7\<rparr> \<and>
   buildLast60Minutes env_ex result_ex2 ! 0 =
     \<lparr>slot_timeKey = ''2024-01-01T11:310:00'', slot_displayTime = ''12:30:00 PM'',
      slot_count = 0\<rparr>"
proof -
  have h1: "\<bar>now env_ex\<bar> \<le> maxTime" by (simp add: env_ex_def maxTime_def)
  have h2: "\<bar>now env_ex - 3600000\<bar> \<le> maxTime" by (simp add: env_ex_def maxTime_def)
  have h3: "store_find (mongo (\<lambda>c. None))
     \<lparr>q_eventType = ''pageLoad'', q_gte = bucketKey (now env_ex - 3600000),
      q_lte = bucketKey (now env_ex)\<rparr> (st world_ex2) = (Inr result_ex2, st world_ex2)"
    by code_simp
  note c = C3_pageloads_series [OF h1 h2 h3]
  have k59: "bucketKey 1704112200000 = ''2024-01-01T12:300:00''" by code_simp
  have k41: "bucketKey 1704111120000 = ''2024-01-01T12:120:00''" by code_simp
  have k0: "bucketKey 1704108660000 = ''2024-01-01T11:310:00''" by code_simp
  have s59: "buildLast60Minutes env_ex result_ex2 ! 59 =
     \<lparr>slot_timeKey = ''2024-01-01T12:300:00'', slot_displayTime = ''12:30:00 PM'',
      slot_count = 3\<rparr>"
    by (simp add: nth_buildLast60Minutes seriesSlot_def Let_def env_ex_def result_ex2_def k59)
  have s41: "buildLast60Minutes env_ex result_ex2 ! 41 =
     \<lparr>slot_timeKey = ''2024-01-01T12:120:00'', slot_displayTime = ''12:30:00 PM'',
      slot_count = 7\<rparr>"
    by (simp add: nth_buildLast60Minutes seriesSlot_def Let_def env_ex_def result_ex2_def k41)
  have s0: "buildLast60Minutes env_ex result_ex2 ! 0 =
     \<lparr>slot_timeKey = ''2024-01-01T11:310:00'', slot_displayTime = ''12:30:00 PM'',
      slot_count = 0\<rparr>"
    by (simp add: nth_buildLast60Minutes seriesSlot_def Let_def env_ex_def result_ex2_def k0)
  show ?thesis
    using h1 h2 h3 c [THEN conjunct1] c [THEN conjunct2, THEN conjunct1] s59 s41 s0
    by blast
qed

subsection \<open>C5\<close>

text \<open>
  C5, as stated, fails at the end of the year 9999: the millisecond before
  +010000-01-01T00:00:00.000Z has the key \<open>''9999-12-31T23:590:00''\<close>, and that instant itself
  has the key \<open>''+010000-01-01T000:00''\<close>, which is smaller, since \<open>+\<close> precedes every digit.
  Both are time values a \<^verbatim>\<open>Date\<close> can hold.
\<close>

theorem C5_counterexample:
  "(253402300799999::int) < 253402300800000 \<and>
   \<not> bucketKey 253402300799999 \<le> bucketKey 253402300800000"
  by code_simp

text \<open>
  C5, amended: for instants \<open>t1 < t2\<close> in the years 0000 to 9999 (where the ISO string has a
  four-digit year), \<open>bucketKey t1 \<le> bucketKey t2\<close> in lexicographic order, and the key of
  \<open>t1\<close> is strictly smaller exactly when \<open>t1\<close> lies in an earlier minute.
\<close>

theorem C5_monotone_four_digit_years:
  assumes "t1 < t2" and "0 \<le> YearFromTime t1" and "YearFromTime t2 \<le> 9999"
  shows "bucketKey t1 \<le> bucketKey t2 \<and>
         (bucketKey t1 < bucketKey t2 \<longleftrightarrow> t1 div msPerMinute < t2 div msPerMinute)"
proof -
  have le: "t1 div msPerMinute \<le> t2 div msPerMinute"
    using assms(1) by (simp add: msPerMinute_def zdiv_mono1)
  then have "Day t1 \<le> Day t2" by (simp add: Day_minutes zdiv_mono1)
  then have ym: "YearFromTime t1 \<le> YearFromTime t2"
    by (simp add: YearFromTime_def YearFromDay_mono)
  have y1: "0 \<le> YearFromTime t1" "YearFromTime t1 \<le> 9999" using assms ym by auto
  have y2: "0 \<le> YearFromTime t2" "YearFromTime t2 \<le> 9999" using assms ym by auto
  have iff: "bucketKey t1 < bucketKey t2 \<longleftrightarrow> t1 div msPerMinute < t2 div msPerMinute"
    using y1 y2 by (rule bucketKey_less_iff)
  have "bucketKey t1 \<le> bucketKey t2"
  proof (cases "t1 div msPerMinute = t2 div msPerMinute")
    case True
    then show ?thesis using bucketKey_same_minute [OF True y1] by simp
  next
    case False
    then have "t1 div msPerMinute < t2 div msPerMinute" using le by simp
    then show ?thesis using iff by simp
  qed
  then show ?thesis using iff by simp
qed

theorem C5_monotone_four_digit_years_witness:
  "(1704112200000::int) < 1704115800000 \<and> 0 \<le> YearFromTime 1704112200000 \<and>
   YearFromTime 1704115800000 \<le> 9999 \<and> bucketKey 1704112200000 \<le> bucketKey 1704115800000 \<and>
   bucketKey 1704112200000 < bucketKey 1704115800000"
proof -
  have a: "(1704112200000::int) < 1704115800000" by simp
  have b: "0 \<le> YearFromTime 1704112200000" by code_simp
  have c: "YearFromTime 1704115800000 \<le> 9999" by code_simp
  have d: "(1704112200000::int) div msPerMinute < 1704115800000 div msPerMinute"
    by (simp add: msPerMinute_def)
  show ?thesis using C5_monotone_four_digit_years [OF a b c] a b c d by simp
qed

subsection \<open>C6\<close>

text \<open>
  C6: a successful \<^verbatim>\<open>POST /api/analytics/pageload\<close> (one answered with status 200) has
  issued exactly two store calls, both accepted: the counter increment for
  \<open>(''pageLoad'', bucketKey now)\<close> with \<open>$inc count 1\<close>, \<open>$set lastUpdated now\<close> and
  \<open>upsert\<close>, then the creation of a detail record with eventType \<open>''pageLoadDetail''\<close>,
  timeKey \<open>bucketKey now @ ''#'' @ uuid\<close>, timestamp \<open>now\<close>, the raw body as eventData, the
  user agent and referrer of the request with defaults \<open>''Unknown''\<close> and \<open>''Direct''\<close>, and
  the request's ip; the response body is \<open>{success: true}\<close>.
\<close>

theorem C6_pageload_success:
  fixes S :: "'st Store"
  assumes "status (fst (post_pageload S env req w)) = 200"
  shows "\<exists>s1 s2.
      store_findOneAndUpdate S
        \<lparr>f_eventType = ''pageLoad'', f_timeKey = bucketKey (now env)\<rparr>
        \<lparr>inc_count = 1, set_lastUpdated = Some (now env)\<rparr>
        \<lparr>upsert = True\<rparr> (st w) = (Inr (), s1) \<and>
      store_createDetail S
        \<lparr>eventType = ''pageLoadDetail'',
         timeKey = bucketKey (now env) @ ''#'' @ uuidv4 env,
         timestamp = Some (now env),
         userAgent = Some (orElse (headers_user_agent req) ''Unknown''),
         ipAddress = ip req,
         referrer = Some (orElse (headers_referer req) ''Direct''),
         eventData = body req\<rparr> s1 = (Inr (), s2) \<and>
      post_pageload S env req w =
        (\<lparr>status = 200, json_body = Success\<rparr>,
         \<lparr>st = s2,
          calls = calls w @
            [FindOneAndUpdate
               \<lparr>f_eventType = ''pageLoad'', f_timeKey = bucketKey (now env)\<rparr>
               \<lparr>inc_count = 1, set_lastUpdated = Some (now env)\<rparr>
               \<lparr>upsert = True\<rparr>,
             CreatePageLoadDetail
               \<lparr>eventType = ''pageLoadDetail'',
                timeKey = bucketKey (now env) @ ''#'' @ uuidv4 env,
                timestamp = Some (now env),
                userAgent = Some (orElse (headers_user_agent req) ''Unknown''),
                ipAddress = ip req,
                referrer = Some (orElse (headers_referer req) ''Direct''),
                eventData = body req\<rparr>]\<rparr>)"
proof (cases "\<bar>now env\<bar> \<le> maxTime")
  case False
  then show ?thesis using assms by (simp add: post_pageload_invalid status_errorHandler)
next
  case True
  show ?thesis
    using assms unfolding post_pageload_unfold [OF True]
    by (auto simp: status_errorHandler split: prod.splits sum.splits)
qed

theorem C6_pageload_success_witness:
  "status (fst (post_pageload (mongo (\<lambda>c. None)) env_ex req_ex world_ex)) = 200 \<and>
   post_pageload (mongo (\<lambda>c. None)) env_ex req_ex world_ex =
     (\<lparr>status = 200, json_body = Success\<rparr>,
      \<lparr>st = \<lparr>pageLoads =
              [\<lparr>pl_eventType = ''pageLoad'', pl_timeKey = ''2024-01-01T12:300:00'',
                pl_count = 1, pl_lastUpdated = Some 1704112200000\<rparr>],
            pageLoadDetails =
              [\<lparr>eventType = ''pageLoadDetail'', timeKey = ''2024-01-01T12:300:00#3f1c'',
                timestamp = Some 1704112200000, userAgent = Some ''curl/8.0'',
                ipAddress = Some ''::1'', referrer = Some ''Direct'',
                eventData = Some (JObject [(''url'', JString ''https://example.com'')])\<rparr>],
            analyticsEvents = []\<rparr>,
       calls =
         [FindOneAndUpdate
            \<lparr>f_eventType = ''pageLoad'', f_timeKey = ''2024-01-01T12:300:00''\<rparr>
            \<lparr>inc_count = 1, set_lastUpdated = Some 1704112200000\<rparr>
            \<lparr>upsert = True\<rparr>,
          CreatePageLoadDetail
            \<lparr>eventType = ''pageLoadDetail'', timeKey = ''2024-01-01T12:300:00#3f1c'',
             timestamp = Some 1704112200000, userAgent = Some ''curl/8.0'',
             ipAddress = Some ''::1'', referrer = Some ''Direct'',
             eventData = Some (JObject [(''url'', JString ''https://example.com'')])\<rparr>]\<rparr>)"
proof -
  have h: "status (fst (post_pageload (mongo (\<lambda>c. None)) env_ex req_ex world_ex)) = 200"
    by code_simp
  have k: "bucketKey (now env_ex) = ''2024-01-01T12:300:00''"
    by code_simp
  from C6_pageload_success [OF h] obtain s1 s2 where
    a: "store_findOneAndUpdate (mongo (\<lambda>c. None))
        \<lparr>f_eventType = ''pageLoad'', f_timeKey = bucketKey (now env_ex)\<rparr>
        \<lparr>inc_count = 1, set_lastUpdated = Some (now env_ex)\<rparr>
        \<lparr>upsert = True\<rparr> (st world_ex) = (Inr (), s1)"
    and b: "store_createDetail (mongo (\<lambda>c. None))
        \<lparr>eventType = ''pageLoadDetail'',
         timeKey = bucketKey (now env_ex) @ ''#'' @ uuidv4 env_ex,
         timestamp = Some (now env_ex),
         userAgent = Some (orElse (headers_user_agent req_ex) ''Unknown''),
         ipAddress = ip req_ex,
         referrer = Some (orElse (headers_referer req_ex) ''Direct''),
         eventData = body req_ex\<rparr> s1 = (Inr (), s2)"
    and c: "post_pageload (mongo (\<lambda>c. None)) env_ex req_ex world_ex =
        (\<lparr>status = 200, json_body = Success\<rparr>,
         \<lparr>st = s2,
          calls = calls world_ex @
            [FindOneAndUpdate
               \<lparr>f_eventType = ''pageLoad'', f_timeKey = bucketKey (now env_ex)\<rparr>
               \<lparr>inc_count = 1, set_lastUpdated = Some (now env_ex)\<rparr>
               \<lparr>upsert = True\<rparr>,
             CreatePageLoadDetail
               \<lparr>eventType = ''pageLoadDetail'',
                timeKey = bucketKey (now env_ex) @ ''#'' @ uuidv4 env_ex,
                timestamp = Some (now env_ex),
                userAgent = Some (orElse (headers_user_agent req_ex) ''Unknown''),
                ipAddress = ip req_ex,
                referrer = Some (orElse (headers_referer req_ex) ''Direct''),
                eventData = body req_ex\<rparr>]\<rparr>)"
    by blast
  have s1: "s1 = \<lparr>pageLoads =
              [\<lparr>pl_eventType = ''pageLoad'', pl_timeKey = ''2024-01-01T12:300:00'',
                pl_count = 1, pl_lastUpdated = Some 1704112200000\<rparr>],
            pageLoadDetails = [], analyticsEvents = []\<rparr>"
    using a unfolding k
    by (simp add: mongo_def world_ex_def env_ex_def findOneAndUpdate_def upsertDoc_def)
  show ?thesis
    using h b c unfolding k s1
    by (simp add: mongo_def world_ex_def env_ex_def req_ex_def orElse_def)
qed

subsection \<open>C7\<close>

text \<open>
  C7: a successful \<^verbatim>\<open>POST /api/analytics/event\<close> (answered with status 200) whose body is an
  object with the string \<open>name\<close> under \<^verbatim>\<open>event\<close> has issued exactly one store call, accepted
  by the store: the creation of a record with eventType \<open>''event_'' @ name\<close>, timeKey the
  full ISO string of \<open>now\<close> followed by \<open>#\<close> and the identifier, timestamp \<open>now\<close>, and the
  body's \<^verbatim>\<open>data\<close> as eventData. No counter increment is among the calls. The response body
  is \<open>{success: true}\<close>.
\<close>

theorem C7_event_success:
  fixes S :: "'st Store"
  assumes "body req = Some (JObject kvs)"
    and "map_of kvs ''event'' = Some (JString name)"
    and "status (fst (post_event S env req w)) = 200"
  shows "\<exists>s1.
      store_createEvent S
        \<lparr>eventType = ''event_'' @ name,
         timeKey = isoString (now env) @ ''#'' @ uuidv4 env,
         timestamp = Some (now env),
         userAgent = Some (orElse (headers_user_agent req) ''Unknown''),
         ipAddress = ip req,
         referrer = Some (orElse (headers_referer req) ''Direct''),
         eventData = map_of kvs ''data''\<rparr> (st w) = (Inr (), s1) \<and>
      post_event S env req w =
        (\<lparr>status = 200, json_body = Success\<rparr>,
         \<lparr>st = s1,
          calls = calls w @
            [CreateAnalyticsEvent
               \<lparr>eventType = ''event_'' @ name,
                timeKey = isoString (now env) @ ''#'' @ uuidv4 env,
                timestamp = Some (now env),
                userAgent = Some (orElse (headers_user_agent req) ''Unknown''),
                ipAddress = ip req,
                referrer = Some (orElse (headers_referer req) ''Direct''),
                eventData = map_of kvs ''data''\<rparr>]\<rparr>)"
proof (cases "\<bar>now env\<bar> \<le> maxTime")
  case False
  then show ?thesis using assms(3) post_event_invalid [OF False, of S req w] by simp
next
  case True
  have d: "destructure (body req) = Inr (map_of kvs ''event'', map_of kvs ''data'')"
    using assms(1) by (simp add: destructure_object)
  have t: "templateString (map_of kvs ''event'') = Inr name"
    using assms(2) by (simp add: templateString_def)
  show ?thesis
    using assms(3) unfolding post_event_unfold [OF True d t]
    by (auto simp: status_errorHandler split: prod.splits sum.splits)
qed

theorem C7_event_success_witness:
  "body req_event_ex = Some (JObject [(''event'', JString ''button_click''),
                            (''data'', JObject [(''buttonId'', JString ''submit-form'')])]) \<and>
   map_of [(''event'', JString ''button_click''),
           (''data'', JObject [(''buttonId'', JString ''submit-form'')])] ''event'' =
     Some (JString ''button_click'') \<and>
   status (fst (post_event (mongo (\<lambda>c. None)) env_ex req_event_ex world_ex)) = 200 \<and>
   post_event (mongo (\<lambda>c. None)) env_ex req_event_ex world_ex =
     (\<lparr>status = 200, json_body = Success\<rparr>,
      \<lparr>st = \<lparr>pageLoads = [], pageLoadDetails = [],
            analyticsEvents =
              [\<lparr>eventType = ''event_button_click'', timeKey = ''2024-01-01T12:30:00.000Z#3f1c'',
                timestamp = Some 1704112200000, userAgent = Some ''Unknown'',
                ipAddress = Some ''::1'', referrer = Some ''https://example.com/'',
                eventData = Some (JObject [(''buttonId'', JString ''submit-form'')])\<rparr>]\<rparr>,
       calls =
         [CreateAnalyticsEvent
            \<lparr>eventType = ''event_button_click'', timeKey = ''2024-01-01T12:30:00.000Z#3f1c'',
             timestamp = Some 1704112200000, userAgent = Some ''Unknown'',
             ipAddress = Some ''::1'', referrer = Some ''https://example.com/'',
             eventData = Some (JObject [(''buttonId'', JString ''submit-form'')])\<rparr>]\<rparr>)"
proof -
  have h1: "body req_event_ex = Some (JObject [(''event'', JString ''button_click''),
                            (''data'', JObject [(''buttonId'', JString ''submit-form'')])])"
    by (simp add: req_event_ex_def)
  have h2: "map_of [(''event'', JString ''button_click''),
           (''data'', JObject [(''buttonId'', JString ''submit-form'')])] ''event'' =
     Some (JString ''button_click'')"
    by simp
  have h3: "status (fst (post_event (mongo (\<lambda>c. None)) env_ex req_event_ex world_ex)) = 200"
    by code_simp
  have k: "isoString (now env_ex) = ''2024-01-01T12:30:00.000Z''"
    by code_simp
  from C7_event_success [OF h1 h2 h3] obtain s1 where
    a: "store_createEvent (mongo (\<lambda>c. None))
        \<lparr>eventType = ''event_'' @ ''button_click'',
         timeKey = isoString (now env_ex) @ ''#'' @ uuidv4 env_ex,
         timestamp = Some (now env_ex),
         userAgent = Some (orElse (headers_user_agent req_event_ex) ''Unknown''),
         ipAddress = ip req_event_ex,
         referrer = Some (orElse (headers_referer req_event_ex) ''Direct''),
         eventData = map_of [(''event'', JString ''button_click''),
           (''data'', JObject [(''buttonId'', JString ''submit-form'')])] ''data''\<rparr>
        (st world_ex) = (Inr (), s1)"
    and b: "post_event (mongo (\<lambda>c. None)) env_ex req_event_ex world_ex =
        (\<lparr>status = 200, json_body = Success\<rparr>,
         \<lparr>st = s1,
          calls = calls world_ex @
            [CreateAnalyticsEvent
               \<lparr>eventType = ''event_'' @ ''button_click'',
                timeKey = isoString (now env_ex) @ ''#'' @ uuidv4 env_ex,
                timestamp = Some (now env_ex),
                userAgent = Some (orElse (headers_user_agent req_event_ex) ''Unknown''),
                ipAddress = ip req_event_ex,
                referrer = Some (orElse (headers_referer req_event_ex) ''Direct''),
                eventData = map_of [(''event'', JString ''button_click''),
                  (''data'', JObject [(''buttonId'', JString ''submit-form'')])] ''data''\<rparr>]\<rparr>)"
    by blast
  have s1: "s1 = \<lparr>pageLoads = [], pageLoadDetails = [],
            analyticsEvents =
              [\<lparr>eventType = ''event_button_click'', timeKey = ''2024-01-01T12:30:00.000Z#3f1c'',
                timestamp = Some 1704112200000, userAgent = Some ''Unknown'',
                ipAddress = Some ''::1'', referrer = Some ''https://example.com/'',
                eventData = Some (JObject [(''buttonId'', JString ''submit-form'')])\<rparr>]\<rparr>"
    using a unfolding k
    by (simp add: mongo_def world_ex_def env_ex_def req_event_ex_def orElse_def)
  show ?thesis
    using h1 h2 h3 b unfolding k s1
    by (simp add: world_ex_def env_ex_def req_event_ex_def orElse_def)
qed

subsection \<open>C8\<close>

text \<open>
  C8: on the reference store, when the clock reading is valid, the store accepts the
  increment of the page-load handler and rejects the creation of the detail record with
  message \<open>m\<close>, the request is answered once, with status 500 and \<open>{success: false, error: m}\<close>;
  the handler has issued exactly these two calls and nothing after them, the counters are
  the ones the increment left (the count of the pair is one more than before), and no
  detail record was added.
\<close>

theorem C8_partial_failure_keeps_increment:
  assumes "\<bar>now env\<bar> \<le> maxTime"
    and "faults (FindOneAndUpdate
           \<lparr>f_eventType = ''pageLoad'', f_timeKey = bucketKey (now env)\<rparr>
           \<lparr>inc_count = 1, set_lastUpdated = Some (now env)\<rparr>
           \<lparr>upsert = True\<rparr>) = None"
    and "faults (CreatePageLoadDetail
           \<lparr>eventType = ''pageLoadDetail'',
            timeKey = bucketKey (now env) @ ''#'' @ uuidv4 env,
            timestamp = Some (now env),
            userAgent = Some (orElse (headers_user_agent req) ''Unknown''),
            ipAddress = ip req,
            referrer = Some (orElse (headers_referer req) ''Direct''),
            eventData = body req\<rparr>) = Some m"
  shows "fst (post_pageload (mongo faults) env req w) = \<lparr>status = 500, json_body = Failure m\<rparr> \<and>
         calls (snd (post_pageload (mongo faults) env req w)) =
           calls w @
             [FindOneAndUpdate
                \<lparr>f_eventType = ''pageLoad'', f_timeKey = bucketKey (now env)\<rparr>
                \<lparr>inc_count = 1, set_lastUpdated = Some (now env)\<rparr>
                \<lparr>upsert = True\<rparr>,
              CreatePageLoadDetail
                \<lparr>eventType = ''pageLoadDetail'',
                 timeKey = bucketKey (now env) @ ''#'' @ uuidv4 env,
                 timestamp = Some (now env),
                 userAgent = Some (orElse (headers_user_agent req) ''Unknown''),
                 ipAddress = ip req,
                 referrer = Some (orElse (headers_referer req) ''Direct''),
                 eventData = body req\<rparr>] \<and>
         pageLoads (st (snd (post_pageload (mongo faults) env req w))) =
           findOneAndUpdate
             \<lparr>f_eventType = ''pageLoad'', f_timeKey = bucketKey (now env)\<rparr>
             \<lparr>inc_count = 1, set_lastUpdated = Some (now env)\<rparr>
             \<lparr>upsert = True\<rparr> (pageLoads (st w)) \<and>
         countFor ''pageLoad'' (bucketKey (now env))
             (pageLoads (st (snd (post_pageload (mongo faults) env req w)))) =
           countFor ''pageLoad'' (bucketKey (now env)) (pageLoads (st w)) + 1 \<and>
         pageLoadDetails (st (snd (post_pageload (mongo faults) env req w))) =
           pageLoadDetails (st w)"
proof -
  have p: "pageLoads (st (snd (post_pageload (mongo faults) env req w))) =
           findOneAndUpdate
             \<lparr>f_eventType = ''pageLoad'', f_timeKey = bucketKey (now env)\<rparr>
             \<lparr>inc_count = 1, set_lastUpdated = Some (now env)\<rparr>
             \<lparr>upsert = True\<rparr> (pageLoads (st w))"
    unfolding post_pageload_unfold [OF assms(1)] using assms(2,3) by (simp add: mongo_def)
  have c: "countFor ''pageLoad'' (bucketKey (now env))
             (pageLoads (st (snd (post_pageload (mongo faults) env req w)))) =
           countFor ''pageLoad'' (bucketKey (now env)) (pageLoads (st w)) + 1"
    unfolding p by (simp add: countFor_findOneAndUpdate)
  show ?thesis
    using p c unfolding post_pageload_unfold [OF assms(1)] using assms(2,3)
    by (simp add: mongo_def errorHandler_def)
qed

theorem C8_partial_failure_keeps_increment_witness:
  "\<bar>now env_ex\<bar> \<le> maxTime \<and>
   fst (post_pageload (mongo faults_ex) env_ex req_ex world_ex2) =
     \<lparr>status = 500, json_body = Failure ''write failed''\<rparr> \<and>
   countFor ''pageLoad'' ''2024-01-01T12:300:00'' (pageLoads (st world_ex2)) = 3 \<and>
   countFor ''pageLoad'' ''2024-01-01T12:300:00''
     (pageLoads (st (snd (post_pageload (mongo faults_ex) env_ex req_ex world_ex2)))) = 4 \<and>
   pageLoadDetails (st (snd (post_pageload (mongo faults_ex) env_ex req_ex world_ex2))) = []"
proof -
  have h1: "\<bar>now env_ex\<bar> \<le> maxTime" by (simp add: env_ex_def maxTime_def)
  have h2: "faults_ex (FindOneAndUpdate
           \<lparr>f_eventType = ''pageLoad'', f_timeKey = bucketKey (now env_ex)\<rparr>
           \<lparr>inc_count = 1, set_lastUpdated = Some (now env_ex)\<rparr>
           \<lparr>upsert = True\<rparr>) = None"
    by (simp add: faults_ex_def)
  have h3: "faults_ex (CreatePageLoadDetail
           \<lparr>eventType = ''pageLoadDetail'',
            timeKey = bucketKey (now env_ex) @ ''#'' @ uuidv4 env_ex,
            timestamp = Some (now env_ex),
            userAgent = Some (orElse (headers_user_agent req_ex) ''Unknown''),
            ipAddress = ip req_ex,
            referrer = Some (orElse (headers_referer req_ex) ''Direct''),
            eventData = body req_ex\<rparr>) = Some ''write failed''"
    by (simp add: faults_ex_def)
  have k: "bucketKey (now env_ex) = ''2024-01-01T12:300:00''" by code_simp
  have c0: "countFor ''pageLoad'' ''2024-01-01T12:300:00'' (pageLoads (st world_ex2)) = 3"
    by (simp add: countFor_def world_ex2_def matches_def)
  note c = C8_partial_failure_keeps_increment [OF h1 h2 h3, of world_ex2, unfolded k]
  show ?thesis
    using h1 c0 c [THEN conjunct1]
      c [THEN conjunct2, THEN conjunct2, THEN conjunct2, THEN conjunct1]
      c [THEN conjunct2, THEN conjunct2, THEN conjunct2, THEN conjunct2]
    by (simp add: world_ex2_def)
qed

subsection \<open>C9\<close>



subsection \<open>C10\<close>

text \<open>
  C10: when the body is any JSON value other than null that has no \<^verbatim>\<open>event\<close> property, the
  clock reading is valid and the store accepts the record, the event handler creates a
  record with eventType \<open>''event_undefined''\<close> and answers 200 with \<open>{success: true}\<close>: no
  branch of the handler checks that a name is present.
\<close>

theorem C10_event_name_not_validated:
  fixes S :: "'st Store"
  assumes "\<bar>now env\<bar> \<le> maxTime"
    and "body req = Some j" and "j \<noteq> JNull" and "getProp j ''event'' = None"
    and "store_createEvent S
        \<lparr>eventType = ''event_undefined'',
         timeKey = isoString (now env) @ ''#'' @ uuidv4 env,
         timestamp = Some (now env),
         userAgent = Some (orElse (headers_user_agent req) ''Unknown''),
         ipAddress = ip req,
         referrer = Some (orElse (headers_referer req) ''Direct''),
         eventData = getProp j ''data''\<rparr> (st w) = (Inr (), s1)"
  shows "post_event S env req w =
        (\<lparr>status = 200, json_body = Success\<rparr>,
         \<lparr>st = s1,
          calls = calls w @
            [CreateAnalyticsEvent
               \<lparr>eventType = ''event_undefined'',
                timeKey = isoString (now env) @ ''#'' @ uuidv4 env,
                timestamp = Some (now env),
                userAgent = Some (orElse (headers_user_agent req) ''Unknown''),
                ipAddress = ip req,
                referrer = Some (orElse (headers_referer req) ''Direct''),
                eventData = getProp j ''data''\<rparr>]\<rparr>)"
proof -
  have d: "destructure (body req) = Inr (getProp j ''event'', getProp j ''data'')"
    using assms(2,3) by (simp add: destructure_nonnull)
  have t: "templateString (getProp j ''event'') = Inr ''undefined''"
    using assms(4) by (simp add: templateString_def)
  show ?thesis
    unfolding post_event_unfold [OF assms(1) d t] using assms(5) by simp
qed

theorem C10_event_name_not_validated_witness:
  "\<bar>now env_ex\<bar> \<le> maxTime \<and>
   body req_noevent_ex = Some (JObject [(''data'', JNumber ''1'')]) \<and>
   JObject [(''data'', JNumber ''1'')] \<noteq> JNull \<and>
   getProp (JObject [(''data'', JNumber ''1'')]) ''event'' = None \<and>
   post_event (mongo (\<lambda>c. None)) env_ex req_noevent_ex world_ex =
     (\<lparr>status = 200, json_body = Success\<rparr>,
      \<lparr>st = \<lparr>pageLoads = [], pageLoadDetails = [],
            analyticsEvents =
              [\<lparr>eventType = ''event_undefined'', timeKey = ''2024-01-01T12:30:00.000Z#3f1c'',
                timestamp = Some 1704112200000, userAgent = Some ''curl/8.0'',
                ipAddress = Some ''::1'', referrer = Some ''Direct'',
                eventData = Some (JNumber ''1'')\<rparr>]\<rparr>,
       calls =
         [CreateAnalyticsEvent
            \<lparr>eventType = ''event_undefined'', timeKey = ''2024-01-01T12:30:00.000Z#3f1c'',
             timestamp = Some 1704112200000, userAgent = Some ''curl/8.0'',
             ipAddress = Some ''::1'', referrer = Some ''Direct'',
             eventData = Some (JNumber ''1'')\<rparr>]\<rparr>)"
proof -
  have h1: "\<bar>now env_ex\<bar> \<le> maxTime" by (simp add: env_ex_def maxTime_def)
  have h2: "body req_noevent_ex = Some (JObject [(''data'', JNumber ''1'')])"
    by (simp add: req_noevent_ex_def)
  have h3: "JObject [(''data'', JNumber ''1'')] \<noteq> JNull" by simp
  have h4: "getProp (JObject [(''data'', JNumber ''1'')]) ''event'' = None" by simp
  have k: "isoString (now env_ex) = ''2024-01-01T12:30:00.000Z''"
    by code_simp
  have h5: "store_createEvent (mongo (\<lambda>c. None))
        \<lparr>eventType = ''event_undefined'',
         timeKey = isoString (now env_ex) @ ''#'' @ uuidv4 env_ex,
         timestamp = Some (now env_ex),
         userAgent = Some (orElse (headers_user_agent req_noevent_ex) ''Unknown''),
         ipAddress = ip req_noevent_ex,
         referrer = Some (orElse (headers_referer req_noevent_ex) ''Direct''),
         eventData = getProp (JObject [(''data'', JNumber ''1'')]) ''data''\<rparr> (st world_ex) =
       (Inr (), \<lparr>pageLoads = [], pageLoadDetails = [],
            analyticsEvents =
              [\<lparr>eventType = ''event_undefined'', timeKey = ''2024-01-01T12:30:00.000Z#3f1c'',
                timestamp = Some 1704112200000, userAgent = Some ''curl/8.0'',
                ipAddress = Some ''::1'', referrer = Some ''Direct'',
                eventData = Some (JNumber ''1'')\<rparr>]\<rparr>)"
    unfolding k by (simp add: mongo_def world_ex_def env_ex_def req_noevent_ex_def orElse_def)
  show ?thesis
    using h1 h2 h3 h4 C10_event_name_not_validated [OF h1 h2 h3 h4 h5] unfolding k
    by (simp add: world_ex_def env_ex_def req_noevent_ex_def orElse_def)
qed

end
